theory Spec2Isabelle
  imports Complex_Main
begin

section \<open>JavaScript values\<close>

text \<open>
  The values that travel through the supervisor as parsed JSON: the target state document,
  the \<open>config\<close> and \<open>environment\<close> of an app or device, the \<open>apps\<close> blob of a target
  device. An object is an association list in insertion order; a parsed object has each
  key once. Numbers are the integers the supervisor stores: ids and counts.
\<close>

datatype json =
    JNull
  | JBool bool
  | JNum int
  | JStr string
  | JArr "json list"
  | JObj "(string \<times> json) list"

lemma size_field_less:
  "(k, v) \<in> set fs \<Longrightarrow> size v < Suc (size_list (size_prod (\<lambda>_. 0) size) fs)"
  by (induction fs) auto

text \<open>
  lodash \<open>_.isEqual\<close>: arrays are compared position by position, objects by their key
  count and then key by key whatever the order, everything else by identity of value.
\<close>

function (sequential) isEqual :: "json \<Rightarrow> json \<Rightarrow> bool" where
  "isEqual (JArr xs) (JArr ys) = list_all2 isEqual xs ys"
| "isEqual (JObj fs) (JObj gs) =
     (length fs = length gs \<and>
      list_all (\<lambda>(k, v). case map_of gs k of None \<Rightarrow> False | Some w \<Rightarrow> isEqual v w) fs)"
| "isEqual a b = (a = b)"
  by pat_completeness auto
termination
  apply (relation "measure (\<lambda>(a, b). size a)")
    apply simp
   apply (simp add: less_Suc_eq_le size_list_estimation')
  apply (auto dest: size_field_less)
  done

text \<open>JavaScript truthiness, as \<open>x || {}\<close> tests it.\<close>

fun truthy :: "json \<Rightarrow> bool" where
  "truthy JNull = False"
| "truthy (JBool b) = b"
| "truthy (JNum n) = (n \<noteq> 0)"
| "truthy (JStr s) = (s \<noteq> [])"
| "truthy (JArr _) = True"
| "truthy (JObj _) = True"

text \<open>A nullable string column as a JSON value.\<close>

definition jsonOfString :: "string option \<Rightarrow> json" where
  "jsonOfString s = (case s of None \<Rightarrow> JNull | Some t \<Rightarrow> JStr t)"

subsection \<open>Numbers as property keys\<close>

definition digit :: "int \<Rightarrow> char" where
  "digit n = ''0123456789'' ! nat n"

function decimal :: "int \<Rightarrow> string" where
  "decimal n = (if n < 10 then [digit n] else decimal (n div 10) @ [digit (n mod 10)])"
  by pat_completeness auto
termination
  by (relation "measure nat") auto

declare decimal.simps [simp del]

text \<open>\<open>String(n)\<close> for an integer \<open>n\<close>, the key under which \<open>_.keyBy\<close> files an app.\<close>

definition String :: "int \<Rightarrow> string" where
  "String n = (if n < 0 then CHR ''-'' # decimal (- n) else decimal n)"

definition digit_val :: "char \<Rightarrow> int option" where
  "digit_val c = map_of (zip ''0123456789'' [0, 1, 2, 3, 4, 5, 6, 7, 8, 9]) c"

fun parse_digits :: "int \<Rightarrow> string \<Rightarrow> int option" where
  "parse_digits acc [] = Some acc"
| "parse_digits acc (c # cs) =
     (case digit_val c of None \<Rightarrow> None | Some d \<Rightarrow> parse_digits (10 * acc + d) cs)"

text \<open>
  An array index is the canonical decimal form of an integer from 0 to \<open>2^32 - 2\<close>. An
  object enumerates its array-index keys first, in ascending numeric order, and then its
  other keys in the order of their creation.
\<close>

definition arrayIndex :: "string \<Rightarrow> int option" where
  "arrayIndex k =
     (if k = [] then None
      else case parse_digits 0 k of
        None \<Rightarrow> None
      | Some n \<Rightarrow> if String n = k \<and> n < 4294967295 then Some n else None)"

definition indexOrZero :: "string \<Rightarrow> int" where
  "indexOrZero k = (case arrayIndex k of Some i \<Rightarrow> i | None \<Rightarrow> 0)"

definition js_entries :: "(string \<times> 'v) list \<Rightarrow> (string \<times> 'v) list" where
  "js_entries obj =
     sort_key (\<lambda>e. indexOrZero (fst e)) (filter (\<lambda>e. arrayIndex (fst e) \<noteq> None) obj)
     @ filter (\<lambda>e. arrayIndex (fst e) = None) obj"

definition js_keys :: "(string \<times> 'v) list \<Rightarrow> string list" where
  "js_keys obj = map fst (js_entries obj)"

text \<open>Assignment \<open>obj[k] = v\<close>: an existing key keeps its place.\<close>

fun obj_set :: "string \<Rightarrow> 'v \<Rightarrow> (string \<times> 'v) list \<Rightarrow> (string \<times> 'v) list" where
  "obj_set k v [] = [(k, v)]"
| "obj_set k v ((k', v') # rest) =
     (if k' = k then (k, v) # rest else (k', v') # obj_set k v rest)"

text \<open>\<open>_.has(obj, k)\<close> and \<open>obj[k]\<close> on an object of own properties.\<close>

definition has :: "(string \<times> 'v) list \<Rightarrow> string \<Rightarrow> bool" where
  "has obj k = (k \<in> set (map fst obj))"

text \<open>\<open>_.union\<close> and the uniqueness pass behind it: the first occurrence stays.\<close>

fun baseUniq :: "'a list \<Rightarrow> 'a list \<Rightarrow> 'a list" where
  "baseUniq seen [] = []"
| "baseUniq seen (x # xs) =
     (if x \<in> set seen then baseUniq seen xs else x # baseUniq (seen @ [x]) xs)"

definition union_js :: "'a list \<Rightarrow> 'a list \<Rightarrow> 'a list" where
  "union_js xs ys = baseUniq [] (xs @ ys)"

text \<open>\<open>_.xorWith(xs, ys, eq)\<close>: what is in one array and has no equal in the other.\<close>

definition differenceWith :: "('a \<Rightarrow> 'a \<Rightarrow> bool) \<Rightarrow> 'a list \<Rightarrow> 'a list \<Rightarrow> 'a list" where
  "differenceWith eq xs ys = filter (\<lambda>x. \<not> list_ex (eq x) ys) xs"

fun uniqWith :: "('a \<Rightarrow> 'a \<Rightarrow> bool) \<Rightarrow> 'a list \<Rightarrow> 'a list \<Rightarrow> 'a list" where
  "uniqWith eq seen [] = []"
| "uniqWith eq seen (x # xs) =
     (if list_ex (eq x) seen then uniqWith eq seen xs else x # uniqWith eq (seen @ [x]) xs)"

definition xorWith :: "('a \<Rightarrow> 'a \<Rightarrow> bool) \<Rightarrow> 'a list \<Rightarrow> 'a list \<Rightarrow> 'a list" where
  "xorWith eq xs ys = uniqWith eq [] (differenceWith eq xs ys @ differenceWith eq ys xs)"


section \<open>The proxyvisor: dependent apps and devices\<close>

datatype error =
    TypeError
  | InvalidAction string
  | NormaliseFailed
  | UndefinedBinding
  | ConfigError
  | InternalInconsistencyError
  | TimeoutError
  | RequestError

text \<open>A dependent app as \<open>normaliseDependentAppFromDB\<close> returns it.\<close>

record app =
  app_appId :: int
  app_name :: json
  app_commit :: "string option"
  app_releaseId :: json
  app_image :: "string option"
  app_imageId :: "int option"
  app_config :: json
  app_environment :: json
  app_parentApp :: "int option"

text \<open>
  A current device as \<open>getCurrentStates\<close> builds it: \<open>apps\<close> maps the device's app id to
  its current and target commit, config and environment.
\<close>

record assignment =
  as_commit :: "string option"
  as_config :: json
  as_environment :: json
  as_targetCommit :: "string option"
  as_targetEnvironment :: json
  as_targetConfig :: json

record current_device =
  cd_uuid :: string
  cd_name :: json
  cd_lock_expiry_date :: json
  cd_markedForDeletion :: bool
  cd_apps :: "(string \<times> assignment) list"

text \<open>A target device as \<open>normaliseDependentDeviceTargetFromDB\<close> returns it.\<close>

record target_device =
  td_uuid :: string
  td_name :: json
  td_apps :: "(string \<times> json) list"

text \<open>The state object a hook delivers: \<open>{appId, commit, config, environment}\<close>.\<close>

record device_state =
  ds_appId :: string
  ds_commit :: "string option"
  ds_config :: json
  ds_environment :: json

record hook_device =
  hd_uuid :: string
  hd_target :: "device_state option"
  hd_markedForDeletion :: bool

record image =
  img_name :: "string option"
  img_imageId :: "int option"
  img_appId :: int
  img_dependent :: bool

text \<open>
  A step. \<open>removeDependentApp\<close> carries the app's numeric id, the other steps the key of
  the app in the keyed collection; a field a step does not have is \<open>None\<close>.
\<close>

datatype app_ref = IdNumber int | IdKey string

datatype devices = TargetDevices "target_device list" | HookDevices "hook_device list"

record step =
  action :: string
  step_appId :: "app_ref option"
  step_image :: "image option"
  step_devices :: "devices option"
  step_app :: "app option"

text \<open>An entry of \<open>acknowledgedState\<close>: \<open>null\<close>, or the target a device confirmed.\<close>

datatype ack = Null | Target device_state

text \<open>The fields of the \<open>Proxyvisor\<close> object that its methods read and write.\<close>

record proxyvisor =
  acknowledgedState :: "string \<rightharpoonup> ack"
  lastRequestForDevice :: "string \<rightharpoonup> int"
  errorLog :: "string list"

text \<open>What \<open>getRequiredSteps\<close> reads of its \<open>current\<close> and \<open>target\<close> arguments: the
  \<open>dependent\<close> field, which may be missing, as may its \<open>apps\<close> and \<open>devices\<close>.\<close>

record current_dependent =
  cur_apps :: "app list option"
  cur_devices :: "current_device list option"

record target_dependent =
  tgt_apps :: "app list option"
  tgt_devices :: "target_device list option"

subsection \<open>Deep equality on the records\<close>

definition isEqual_app :: "app option \<Rightarrow> app \<Rightarrow> bool" where
  "isEqual_app current target =
     (case current of
        None \<Rightarrow> False
      | Some c \<Rightarrow>
          app_appId c = app_appId target \<and> isEqual (app_name c) (app_name target)
          \<and> app_commit c = app_commit target
          \<and> isEqual (app_releaseId c) (app_releaseId target)
          \<and> app_image c = app_image target \<and> app_imageId c = app_imageId target
          \<and> isEqual (app_config c) (app_config target)
          \<and> isEqual (app_environment c) (app_environment target)
          \<and> app_parentApp c = app_parentApp target)"

definition isEqual_state :: "device_state \<Rightarrow> device_state \<Rightarrow> bool" where
  "isEqual_state a b =
     (ds_appId a = ds_appId b \<and> ds_commit a = ds_commit b
      \<and> isEqual (ds_config a) (ds_config b)
      \<and> isEqual (ds_environment a) (ds_environment b))"

text \<open>\<open>_.isEqual(targetState, this.acknowledgedState[uuid])\<close>: an absent or \<open>null\<close> entry
  equals no state.\<close>

definition isEqual_ack :: "device_state \<Rightarrow> ack option \<Rightarrow> bool" where
  "isEqual_ack s a = (case a of Some (Target t) \<Rightarrow> isEqual_state s t | _ \<Rightarrow> False)"

definition isEqual_device :: "target_device \<Rightarrow> target_device \<Rightarrow> bool" where
  "isEqual_device a b =
     (td_uuid a = td_uuid b \<and> isEqual (td_name a) (td_name b)
      \<and> isEqual (JObj (td_apps a)) (JObj (td_apps b)))"

subsection \<open>The diff engine\<close>

definition imageAvailable :: "string \<Rightarrow> image list \<Rightarrow> bool" where
  "imageAvailable imageName available = list_ex (\<lambda>a. img_name a = Some imageName) available"

definition imageForDependentApp :: "app \<Rightarrow> image" where
  "imageForDependentApp a =
     \<lparr>img_name = app_image a, img_imageId = app_imageId a, img_appId = app_appId a,
      img_dependent = True\<rparr>"

text \<open>The \<open>targetState\<close> and \<open>currentState\<close> that \<open>_getHookStep\<close> builds for a device
  out of its entry for the app.\<close>

definition targetStateOf :: "string \<Rightarrow> assignment \<Rightarrow> device_state" where
  "targetStateOf appId a =
     \<lparr>ds_appId = appId, ds_commit = as_targetCommit a, ds_config = as_targetConfig a,
      ds_environment = as_targetEnvironment a\<rparr>"

definition currentStateOf :: "string \<Rightarrow> assignment \<Rightarrow> device_state" where
  "currentStateOf appId a =
     \<lparr>ds_appId = appId, ds_commit = as_commit a, ds_config = as_config a,
      ds_environment = as_environment a\<rparr>"

text \<open>The loop of \<open>_getHookStep\<close>, pushing onto \<open>hookStep.devices\<close>.\<close>

fun hookDevices ::
  "proxyvisor \<Rightarrow> string \<Rightarrow> current_device list \<Rightarrow> hook_device list \<Rightarrow> error + hook_device list"
where
  "hookDevices this appId [] pushed = Inr pushed"
| "hookDevices this appId (device # rest) pushed =
     (if cd_markedForDeletion device then
        hookDevices this appId rest
          (pushed @ [\<lparr>hd_uuid = cd_uuid device, hd_target = None, hd_markedForDeletion = True\<rparr>])
      else
        case map_of (cd_apps device) appId of
          None \<Rightarrow> Inl TypeError
        | Some a \<Rightarrow>
            let targetState = targetStateOf appId a;
                currentState = currentStateOf appId a
            in if as_targetCommit a \<noteq> None
                  \<and> \<not> isEqual_state targetState currentState
                  \<and> \<not> isEqual_ack targetState (acknowledgedState this (cd_uuid device))
               then hookDevices this appId rest
                      (pushed @ [\<lparr>hd_uuid = cd_uuid device, hd_target = Some targetState,
                                  hd_markedForDeletion = False\<rparr>])
               else hookDevices this appId rest pushed)"

definition getHookStep :: "proxyvisor \<Rightarrow> current_device list \<Rightarrow> string \<Rightarrow> error + step" where
  "getHookStep this currentDevices appId =
     (case hookDevices this appId currentDevices [] of
        Inl e \<Rightarrow> Inl e
      | Inr ds \<Rightarrow>
          Inr \<lparr>action = ''sendDependentHooks'', step_appId = Some (IdKey appId),
               step_image = None, step_devices = Some (HookDevices ds), step_app = None\<rparr>)"

text \<open>
  The first half of \<open>_compareDevices\<close>: the target each current device has on record, in
  the shape of a target device; a device marked for deletion maps to \<open>null\<close> and is
  filtered out.
\<close>

fun currentDeviceTargets :: "string \<Rightarrow> current_device list \<Rightarrow> error + target_device list" where
  "currentDeviceTargets appId [] = Inr []"
| "currentDeviceTargets appId (dev # rest) =
     (if cd_markedForDeletion dev then currentDeviceTargets appId rest
      else
        case map_of (cd_apps dev) appId of
          None \<Rightarrow> Inl TypeError
        | Some a \<Rightarrow>
            let devTarget =
                  \<lparr>td_uuid = cd_uuid dev, td_name = cd_name dev,
                   td_apps =
                     [(appId,
                       JObj [(''commit'', jsonOfString (as_targetCommit a)),
                             (''environment'',
                              if truthy (as_targetEnvironment a) then as_targetEnvironment a
                              else JObj []),
                             (''config'',
                              if truthy (as_targetConfig a) then as_targetConfig a
                              else JObj [])])]\<rparr>
            in case currentDeviceTargets appId rest of
                 Inl e \<Rightarrow> Inl e
               | Inr ts \<Rightarrow> Inr (devTarget # ts))"

definition compareDevices ::
  "current_device list \<Rightarrow> target_device list \<Rightarrow> string \<Rightarrow> error + bool" where
  "compareDevices currentDevices targetDevices appId =
     (case currentDeviceTargets appId currentDevices of
        Inl e \<Rightarrow> Inl e
      | Inr ts \<Rightarrow> Inr (xorWith isEqual_device ts targetDevices \<noteq> []))"

text \<open>\<open>step.appId === target.parentApp\<close>: a number equals the same number only.\<close>

definition targetsParent :: "step \<Rightarrow> app \<Rightarrow> bool" where
  "targetsParent s target =
     (case (step_appId s, app_parentApp target) of
        (Some (IdNumber n), Some p) \<Rightarrow> n = p
      | _ \<Rightarrow> False)"

definition noop :: step where
  "noop = \<lparr>action = ''noop'', step_appId = None, step_image = None, step_devices = None,
           step_app = None\<rparr>"

definition nextStepsForDependentApp ::
  "proxyvisor \<Rightarrow> string \<Rightarrow> image list \<Rightarrow> int list \<Rightarrow> app option \<Rightarrow> app option
   \<Rightarrow> current_device list \<Rightarrow> target_device list \<Rightarrow> step list \<Rightarrow> error + step list"
where
  "nextStepsForDependentApp this appId availableImages downloading current target
     currentDevices targetDevices stepsInProgress =
     (case target of
        None \<Rightarrow>
          (case current of
             None \<Rightarrow> Inl TypeError
           | Some c \<Rightarrow>
               Inr [\<lparr>action = ''removeDependentApp'', step_appId = Some (IdNumber (app_appId c)),
                     step_image = None, step_devices = None, step_app = None\<rparr>])
      | Some t \<Rightarrow>
          if list_ex (\<lambda>s. targetsParent s t) stepsInProgress then Inr [noop]
          else
            let needsDownload =
                  (app_commit t \<noteq> None
                   \<and> (case app_image t of
                        None \<Rightarrow> False
                      | Some i \<Rightarrow> \<not> imageAvailable i availableImages))
            in if needsDownload then
                 (if (case app_imageId t of None \<Rightarrow> False | Some i \<Rightarrow> i \<in> set downloading)
                  then Inr [noop]
                  else
                    Inr [\<lparr>action = ''fetch'', step_appId = Some (IdKey appId),
                          step_image = Some (imageForDependentApp t), step_devices = None,
                          step_app = None\<rparr>])
               else
                 case compareDevices currentDevices targetDevices appId of
                   Inl e \<Rightarrow> Inl e
                 | Inr devicesDiffer \<Rightarrow>
                     if \<not> isEqual_app current t \<or> devicesDiffer then
                       Inr [\<lparr>action = ''updateDependentTargets'', step_appId = Some (IdKey appId),
                             step_image = None,
                             step_devices = Some (TargetDevices targetDevices),
                             step_app = Some t\<rparr>]
                     else
                       case getHookStep this currentDevices appId of
                         Inl e \<Rightarrow> Inl e
                       | Inr hookStep \<Rightarrow>
                           if step_devices hookStep \<noteq> Some (HookDevices [])
                           then Inr [hookStep] else Inr [])"

text \<open>\<open>_.keyBy(apps, 'appId')\<close>: a later app with the same id replaces the earlier.\<close>

definition keyBy :: "app list \<Rightarrow> (string \<times> app) list" where
  "keyBy apps = fold (\<lambda>a obj. obj_set (String (app_appId a)) a obj) apps []"

definition dependentApps :: "app list option option \<Rightarrow> app list" where
  "dependentApps d = (case d of Some (Some apps) \<Rightarrow> apps | _ \<Rightarrow> [])"

text \<open>The body of the loop over \<open>allAppIds\<close>, \<open>steps\<close> being the list built so far.\<close>

fun stepsForApps ::
  "proxyvisor \<Rightarrow> image list \<Rightarrow> int list \<Rightarrow> current_dependent option
   \<Rightarrow> target_dependent option \<Rightarrow> step list \<Rightarrow> string list \<Rightarrow> step list \<Rightarrow> error + step list"
where
  "stepsForApps this availableImages downloading current target stepsInProgress [] steps =
     Inr steps"
| "stepsForApps this availableImages downloading current target stepsInProgress
     (appId # rest) steps =
     (case current of
        None \<Rightarrow> Inl TypeError
      | Some cur \<Rightarrow>
          (case target of
             None \<Rightarrow> Inl TypeError
           | Some tgt \<Rightarrow>
               let currentDevices =
                     filter (\<lambda>d. has (cd_apps d) appId)
                       (case cur_devices cur of None \<Rightarrow> [] | Some ds \<Rightarrow> ds);
                   targetDevices =
                     filter (\<lambda>d. has (td_apps d) appId)
                       (case tgt_devices tgt of None \<Rightarrow> [] | Some ds \<Rightarrow> ds)
               in case nextStepsForDependentApp this appId availableImages downloading
                         (map_of (keyBy (dependentApps (map_option cur_apps current))) appId)
                         (map_of (keyBy (dependentApps (map_option tgt_apps target))) appId)
                         currentDevices targetDevices stepsInProgress of
                    Inl e \<Rightarrow> Inl e
                  | Inr stepsForApp \<Rightarrow>
                      stepsForApps this availableImages downloading current target
                        stepsInProgress rest (steps @ stepsForApp)))"

definition getRequiredSteps ::
  "proxyvisor \<Rightarrow> image list \<Rightarrow> int list \<Rightarrow> current_dependent option
   \<Rightarrow> target_dependent option \<Rightarrow> step list \<Rightarrow> error + step list"
where
  "getRequiredSteps this availableImages downloading current target stepsInProgress =
     (let targetApps = keyBy (dependentApps (map_option tgt_apps target));
          targetAppIds = js_keys targetApps;
          currentApps = keyBy (dependentApps (map_option cur_apps current));
          currentAppIds = js_keys currentApps;
          allAppIds = union_js targetAppIds currentAppIds
      in stepsForApps this availableImages downloading current target stepsInProgress
           allAppIds [])"


subsection \<open>The action executor\<close>

datatype executor = UpdateDependentTargets | SendDependentHooks | RemoveDependentApp

text \<open>The table \<open>this.actionExecutors\<close> of the constructor, in the order it is written.\<close>

definition actionExecutors :: "(string \<times> executor) list" where
  "actionExecutors =
     [(''updateDependentTargets'', UpdateDependentTargets),
      (''sendDependentHooks'', SendDependentHooks),
      (''removeDependentApp'', RemoveDependentApp)]"

definition validActions :: "string list" where
  "validActions = map fst actionExecutors"

text \<open>
  The table is an object literal, so a lookup that finds no own property goes on to
  \<open>Object.prototype\<close>, whose members are not \<open>null\<close>.
\<close>

definition objectPrototype :: "string list" where
  "objectPrototype =
     [''constructor'', ''__defineGetter__'', ''__defineSetter__'', ''hasOwnProperty'',
      ''__lookupGetter__'', ''__lookupSetter__'', ''isPrototypeOf'', ''propertyIsEnumerable'',
      ''toString'', ''valueOf'', ''__proto__'', ''toLocaleString'']"

datatype 'a property = Undefined | Own 'a | Inherited string

definition getProperty :: "(string \<times> 'a) list \<Rightarrow> string \<Rightarrow> 'a property" where
  "getProperty obj k =
     (case map_of obj k of
        Some v \<Rightarrow> Own v
      | None \<Rightarrow> if k \<in> set objectPrototype then Inherited k else Undefined)"

text \<open>
  Calling an inherited member on the step: \<open>__proto__\<close> is \<open>Object.prototype\<close> itself,
  an object and not a function, and \<open>__defineGetter__\<close> and \<open>__defineSetter__\<close> refuse a
  second argument that is not a function, so these three throw a \<open>TypeError\<close>; the
  others return.
\<close>

definition throwingMembers :: "string list" where
  "throwingMembers = [''__proto__'', ''__defineGetter__'', ''__defineSetter__'']"

text \<open>
  What \<open>executeStepAction\<close> ends in: an error, or the call of an executor of the table
  on the step, or the call of an inherited member on it. The bodies of the executors are
  modelled where a claim is about them.
\<close>

datatype dispatch = Executor executor step | Member string step

definition executeStepAction :: "step \<Rightarrow> error + dispatch" where
  "executeStepAction s =
     (case getProperty actionExecutors (action s) of
        Undefined \<Rightarrow> Inl (InvalidAction (action s))
      | Own h \<Rightarrow> Inr (Executor h s)
      | Inherited m \<Rightarrow>
          if m \<in> set throwingMembers then Inl TypeError else Inr (Member m s))"

subsection \<open>Cached tarballs\<close>

text \<open>A directory tree as far as \<open>cleanupTars\<close> sees it: the entries of each directory
  that can be read.\<close>

type_synonym filesystem = "string \<rightharpoonup> string list"

definition tarDirectory :: "int \<Rightarrow> string" where
  "tarDirectory appId = ''/data/dependent-assets/'' @ String appId"

definition tarFilename :: "int \<Rightarrow> string \<Rightarrow> string" where
  "tarFilename appId commit = String appId @ ''-'' @ commit @ ''.tar''"

definition tarPath :: "int \<Rightarrow> string \<Rightarrow> string" where
  "tarPath appId commit = tarDirectory appId @ ''/'' @ tarFilename appId commit"

text \<open>
  lodash \<open>_.reject(collection, predicate)\<close> returns the elements for which the predicate
  is not truthy, and a string given for the predicate is the shorthand of
  \<open>_.property\<close>: the predicate reads the property of the element at that path. The
  elements are file names, string primitives, whose properties are their indices,
  \<open>length\<close> and the methods of their prototypes: names made of letters, digits, \<open>_\<close>
  and \<open>$\<close>. The path is split at \<open>.\<close>, \<open>[\<close> and \<open>]\<close>; when its first key is no such
  name the property is \<open>undefined\<close>. What the rest of the path reaches otherwise is left
  to \<open>deep\<close>, the truthiness of \<open>_.get(element, path)\<close>.
\<close>

definition firstKey :: "string \<Rightarrow> string" where
  "firstKey path = takeWhile (\<lambda>c. c \<notin> set ''.[]'') path"

definition identifierChar :: "char \<Rightarrow> bool" where
  "identifierChar c =
     (c \<in> set ''abcdefghijklmnopqrstuvwxyzABCDEFGHIJKLMNOPQRSTUVWXYZ0123456789_$'')"

definition propertyTruthy :: "(string \<Rightarrow> string \<Rightarrow> bool) \<Rightarrow> string \<Rightarrow> string \<Rightarrow> bool" where
  "propertyTruthy deep element path =
     (if list_all identifierChar (firstKey path) then deep element path else False)"

definition reject :: "(string \<Rightarrow> string \<Rightarrow> bool) \<Rightarrow> string list \<Rightarrow> string \<Rightarrow> string list" where
  "reject deep collection path = filter (\<lambda>x. \<not> propertyTruthy deep x path) collection"

text \<open>
  \<open>cleanupTars(appId, commit)\<close>: the paths it unlinks, in order, and the directory tree
  afterwards. A directory that cannot be read counts as empty.
\<close>

definition cleanupTars ::
  "(string \<Rightarrow> string \<Rightarrow> bool) \<Rightarrow> int \<Rightarrow> string option \<Rightarrow> filesystem
   \<Rightarrow> string list \<times> filesystem"
where
  "cleanupTars deep appId commit fs =
     (let fileToKeep = (case commit of Some c \<Rightarrow> Some (tarFilename appId c) | None \<Rightarrow> None);
          dir = tarDirectory appId;
          files = (case fs dir of None \<Rightarrow> [] | Some entries \<Rightarrow> entries);
          files = (case fileToKeep of Some keep \<Rightarrow> reject deep files keep | None \<Rightarrow> files)
      in (map (\<lambda>file. dir @ ''/'' @ file) files,
          case fs dir of
            None \<Rightarrow> fs
          | Some entries \<Rightarrow> fs(dir \<mapsto> filter (\<lambda>f. f \<notin> set files) entries)))"

subsection \<open>Hook delivery\<close>

text \<open>What a request comes to: an answer with its status code and body, or a transport
  error or timeout.\<close>

datatype answer = Answer int string | RequestFailed

definition sendUpdate :: "hook_device \<Rightarrow> answer \<Rightarrow> proxyvisor \<Rightarrow> proxyvisor" where
  "sendUpdate device reply this =
     (case reply of
        RequestFailed \<Rightarrow>
          this\<lparr>errorLog := errorLog this @ [''Error updating device '' @ hd_uuid device]\<rparr>
      | Answer statusCode body \<Rightarrow>
          if statusCode = 200 then
            this\<lparr>acknowledgedState :=
                   (acknowledgedState this)
                     (hd_uuid device := map_option Target (hd_target device))\<rparr>
          else
            let this = this\<lparr>acknowledgedState :=
                              (acknowledgedState this)(hd_uuid device \<mapsto> Null)\<rparr>
            in if statusCode \<noteq> 202 then
                 this\<lparr>errorLog := errorLog this @ [''Error updating device '' @ hd_uuid device]\<rparr>
               else this)"


subsection \<open>Storing the target\<close>

text \<open>
  The \<open>dependent\<close> part of a target state: apps by app id, devices by uuid, either of
  which may be missing; a device names its apps with an object for each.
\<close>

record desired_device =
  dd_name :: json
  dd_apps :: "(string \<times> (string \<times> json) list) list option"

record desired =
  des_apps :: "(string \<times> app) list option"
  des_devices :: "(string \<times> desired_device) list option"

text \<open>The two target tables, as their rows; a JSON column holds the value its text encodes.\<close>

record database =
  dependentAppTarget :: "app list"
  dependentDeviceTarget :: "target_device list"

definition orEmptyObject :: "json \<Rightarrow> json" where
  "orEmptyObject v = (if v = JNull then JObj [] else v)"

text \<open>\<open>normaliseDependentAppForDB\<close>; \<open>normalise\<close> is \<open>this.images.normalise\<close>, which
  may reject.\<close>

definition normaliseDependentAppForDB ::
  "(string \<Rightarrow> string option) \<Rightarrow> int option \<times> app \<Rightarrow> error + int option \<times> app" where
  "normaliseDependentAppForDB normalise a =
     (case (case app_image (snd a) of
              None \<Rightarrow> Inr None
            | Some i \<Rightarrow> (case normalise i of None \<Rightarrow> Inl NormaliseFailed | Some n \<Rightarrow> Inr (Some n))) of
        Inl e \<Rightarrow> Inl e
      | Inr img \<Rightarrow>
          Inr (fst a,
               (snd a)\<lparr>app_image := img,
                        app_config := orEmptyObject (app_config (snd a)),
                        app_environment := orEmptyObject (app_environment (snd a))\<rparr>))"

fun mapAll :: "('a \<Rightarrow> error + 'b) \<Rightarrow> 'a list \<Rightarrow> error + 'b list" where
  "mapAll f [] = Inr []"
| "mapAll f (x # xs) =
     (case f x of
        Inl e \<Rightarrow> Inl e
      | Inr y \<Rightarrow> (case mapAll f xs of Inl e \<Rightarrow> Inl e | Inr ys \<Rightarrow> Inr (y # ys)))"

text \<open>
  Modelled from the spec: \<open>db.upsertModel\<close>, of the database module that is not among
  the sources, "upserts each target app row (keyed by appId)": the rows with the key take
  the new values, and a row is inserted when there is none.
\<close>

definition upsertModel :: "('r \<Rightarrow> bool) \<Rightarrow> 'r \<Rightarrow> 'r list \<Rightarrow> 'r list" where
  "upsertModel matches obj table =
     (if list_ex matches table then map (\<lambda>r. if matches r then obj else r) table
      else table @ [obj])"

text \<open>The upserts of the app rows, one after the other; an app whose key \<open>checkInt\<close>
  refused has no \<open>appId\<close> to bind, and the query fails.\<close>

fun upsertApps :: "(int option \<times> app) list \<Rightarrow> app list \<Rightarrow> app list \<times> error option" where
  "upsertApps [] table = (table, None)"
| "upsertApps ((None, a) # rest) table = (table, Some UndefinedBinding)"
| "upsertApps ((Some i, a) # rest) table =
     upsertApps rest (upsertModel (\<lambda>r. app_appId r = i) (a\<lparr>app_appId := i\<rparr>) table)"

definition normaliseDependentDeviceTargetForDB ::
  "string \<Rightarrow> desired_device \<Rightarrow> string option \<Rightarrow> target_device" where
  "normaliseDependentDeviceTargetForDB uuid device appCommit =
     \<lparr>td_uuid = uuid, td_name = dd_name device,
      td_apps =
        map (\<lambda>(k, a).
               let a = obj_set ''commit''
                         (case appCommit of
                            None \<Rightarrow> JNull
                          | Some c \<Rightarrow> if c = [] then JNull else JStr c) a;
                   a = (if map_of a ''config'' \<in> {None, Some JNull}
                        then obj_set ''config'' (JObj []) a else a);
                   a = (if map_of a ''environment'' \<in> {None, Some JNull}
                        then obj_set ''environment'' (JObj []) a else a)
               in (k, JObj a))
          (js_entries (case dd_apps device of None \<Rightarrow> [] | Some as \<Rightarrow> as))\<rparr>"

text \<open>The row of one device: its first app key selects the commit out of
  \<open>dependent.apps\<close>, which must be there.\<close>

definition deviceForDB ::
  "(string \<times> app) list option \<Rightarrow> string \<times> desired_device \<Rightarrow> error + target_device" where
  "deviceForDB apps d =
     (let appId = (case js_keys (case dd_apps (snd d) of None \<Rightarrow> [] | Some as \<Rightarrow> as) of
                     [] \<Rightarrow> ''undefined''
                   | k # _ \<Rightarrow> k)
      in case apps of
           None \<Rightarrow> Inl TypeError
         | Some as \<Rightarrow>
             Inr (normaliseDependentDeviceTargetForDB (fst d) (snd d)
                    (case map_of as appId of None \<Rightarrow> None | Some a \<Rightarrow> app_commit a)))"

definition setTargetInTransaction ::
  "(string \<Rightarrow> int option) \<Rightarrow> (string \<Rightarrow> string option) \<Rightarrow> desired option \<Rightarrow> database
   \<Rightarrow> database \<times> error option"
where
  "setTargetInTransaction checkInt normalise dep db =
     (let apps = (case dep of None \<Rightarrow> None | Some d \<Rightarrow> des_apps d);
          devices = (case dep of None \<Rightarrow> None | Some d \<Rightarrow> des_devices d);
          (db, failed) =
            (case apps of
               None \<Rightarrow> (db, None)
             | Some as \<Rightarrow>
                 let appsArray = map (\<lambda>(appId, a). (checkInt appId, a)) (js_entries as)
                 in case mapAll (normaliseDependentAppForDB normalise) appsArray of
                      Inl e \<Rightarrow> (db, Some e)
                    | Inr appsForDB \<Rightarrow>
                        (case upsertApps appsForDB (dependentAppTarget db) of
                           (table, Some e) \<Rightarrow> (db\<lparr>dependentAppTarget := table\<rparr>, Some e)
                         | (table, None) \<Rightarrow>
                             (db\<lparr>dependentAppTarget :=
                                    filter (\<lambda>r. Some (app_appId r) \<in> set (map fst appsForDB))
                                      table\<rparr>,
                              None)))
      in case failed of
           Some e \<Rightarrow> (db, Some e)
         | None \<Rightarrow>
             (case devices of
                None \<Rightarrow> (db, None)
              | Some ds \<Rightarrow>
                  (case mapAll (deviceForDB apps) (js_entries ds) of
                     Inl e \<Rightarrow> (db, Some e)
                   | Inr devicesForDB \<Rightarrow>
                       (db\<lparr>dependentDeviceTarget :=
                              filter (\<lambda>r. td_uuid r \<in> set (map td_uuid devicesForDB))
                                (fold (\<lambda>device. upsertModel (\<lambda>r. td_uuid r = td_uuid device) device)
                                   devicesForDB (dependentDeviceTarget db))\<rparr>,
                        None))))"


section \<open>The target state: cache, fetch and poll\<close>

subsection \<open>Objects with identity\<close>

text \<open>
  The cache keeps the body it was given, and \<open>_.cloneDeep\<close> exists to hand out a copy
  that shares nothing with it. To tell a copy from an alias, a value in memory carries
  the address of each of its arrays and objects. Addresses are handed out in sequence;
  the next free one is threaded through every function that allocates.
\<close>

datatype jsvalue =
    VNull
  | VBool bool
  | VNum int
  | VStr string
  | VArr nat "jsvalue list"
  | VObj nat "(string \<times> jsvalue) list"

text \<open>The JSON parser of the request library (\<open>json: true\<close>): every array and object of
  the document is allocated afresh.\<close>

fun parse :: "nat \<Rightarrow> json \<Rightarrow> jsvalue \<times> nat"
  and parse_list :: "nat \<Rightarrow> json list \<Rightarrow> jsvalue list \<times> nat"
  and parse_fields :: "nat \<Rightarrow> (string \<times> json) list \<Rightarrow> (string \<times> jsvalue) list \<times> nat"
where
  "parse n JNull = (VNull, n)"
| "parse n (JBool b) = (VBool b, n)"
| "parse n (JNum i) = (VNum i, n)"
| "parse n (JStr s) = (VStr s, n)"
| "parse n (JArr xs) = (let (vs, n') = parse_list (Suc n) xs in (VArr n vs, n'))"
| "parse n (JObj fs) = (let (vs, n') = parse_fields (Suc n) fs in (VObj n vs, n'))"
| "parse_list n [] = ([], n)"
| "parse_list n (x # xs) =
     (let (v, n') = parse n x; (vs, n'') = parse_list n' xs in (v # vs, n''))"
| "parse_fields n [] = ([], n)"
| "parse_fields n ((k, x) # fs) =
     (let (v, n') = parse n x; (vs, n'') = parse_fields n' fs in ((k, v) # vs, n''))"

text \<open>\<open>_.cloneDeep\<close>: primitives are returned as they are, arrays and objects are rebuilt
  at fresh addresses, all the way down.\<close>

fun cloneDeep :: "nat \<Rightarrow> jsvalue \<Rightarrow> jsvalue \<times> nat"
  and cloneDeep_list :: "nat \<Rightarrow> jsvalue list \<Rightarrow> jsvalue list \<times> nat"
  and cloneDeep_fields ::
    "nat \<Rightarrow> (string \<times> jsvalue) list \<Rightarrow> (string \<times> jsvalue) list \<times> nat"
where
  "cloneDeep n (VArr a xs) = (let (vs, n') = cloneDeep_list (Suc n) xs in (VArr n vs, n'))"
| "cloneDeep n (VObj a fs) = (let (vs, n') = cloneDeep_fields (Suc n) fs in (VObj n vs, n'))"
| "cloneDeep n v = (v, n)"
| "cloneDeep_list n [] = ([], n)"
| "cloneDeep_list n (x # xs) =
     (let (v, n') = cloneDeep n x; (vs, n'') = cloneDeep_list n' xs in (v # vs, n''))"
| "cloneDeep_fields n [] = ([], n)"
| "cloneDeep_fields n ((k, x) # fs) =
     (let (v, n') = cloneDeep n x; (vs, n'') = cloneDeep_fields n' fs in ((k, v) # vs, n''))"

text \<open>The document a value stands for, and the addresses it occupies.\<close>

fun erase :: "jsvalue \<Rightarrow> json" where
  "erase VNull = JNull"
| "erase (VBool b) = JBool b"
| "erase (VNum i) = JNum i"
| "erase (VStr s) = JStr s"
| "erase (VArr a xs) = JArr (map erase xs)"
| "erase (VObj a fs) = JObj (map (\<lambda>(k, v). (k, erase v)) fs)"

fun addresses :: "jsvalue \<Rightarrow> nat set" where
  "addresses (VArr a xs) = insert a (\<Union>(addresses ` set xs))"
| "addresses (VObj a fs) = insert a (\<Union>(addresses ` snd ` set fs))"
| "addresses v = {}"

subsection \<open>update\<close>

text \<open>A header is a string or, when it was sent more than once, an array of strings.\<close>

datatype header = Single string | Multiple "string list"

record cache =
  etag :: "header option"
  body :: jsvalue

record options =
  opt_json :: bool
  opt_headers :: "(string \<times> string) list option"

text \<open>A GET: the endpoint, \<open>url.resolve(apiEndpoint, path)\<close> kept as the pair of its
  arguments, and the options passed with it.\<close>

record request =
  req_endpoint :: "string \<times> string"
  req_options :: options

text \<open>What the GET comes to: a response with its status code, headers and body after so
  many milliseconds, or a transport error.\<close>

datatype reply = Reply int "(string \<times> header) list" json nat | Unreachable

record config_values =
  uuid :: string
  apiEndpoint :: "string option"
  apiTimeout :: nat

text \<open>What one call of \<open>update\<close> meets outside the module: the configuration (\<open>None\<close>
  when it cannot be read; an \<open>apiEndpoint\<close> that is not a string is \<open>None\<close>), the remote
  API, and the clock.\<close>

record environment =
  getMany :: "config_values option"
  remote :: "request \<Rightarrow> reply"
  hrtime :: nat

text \<open>The module's variables, the events emitted so far, and the next free address.\<close>

record target_state =
  cache :: "cache option"
  emitted :: "(jsvalue \<times> bool \<times> bool) list"
  lastFetch :: "nat option"
  heapTop :: nat

text \<open>The function that \<open>update\<close> runs under the lock.\<close>

definition fetch ::
  "environment \<Rightarrow> bool \<Rightarrow> bool \<Rightarrow> target_state \<Rightarrow> target_state \<times> error option" where
  "fetch env force isFromApi st =
     (case getMany env of
        None \<Rightarrow> (st, Some ConfigError)
      | Some cfg \<Rightarrow>
          (case apiEndpoint cfg of
             None \<Rightarrow> (st, Some InternalInconsistencyError)
           | Some base \<Rightarrow>
               let endpoint = (base, ''/device/v2/'' @ uuid cfg @ ''/state'');
                   params = \<lparr>opt_json = True, opt_headers = None\<rparr>;
                   params =
                     (case cache st of
                        None \<Rightarrow> params
                      | Some c \<Rightarrow>
                          (case etag c of
                             Some (Single e) \<Rightarrow>
                               params\<lparr>opt_headers := Some [(''If-None-Match'', e)]\<rparr>
                           | _ \<Rightarrow> params))
               in case remote env
                         \<lparr>req_endpoint = endpoint,
                          req_options = \<lparr>opt_json = True, opt_headers = None\<rparr>\<rparr> of
                    Unreachable \<Rightarrow> (st, Some RequestError)
                  | Reply statusCode headers document elapsed \<Rightarrow>
                      if apiTimeout cfg \<le> elapsed then (st, Some TimeoutError)
                      else
                        let (b, top) = parse (heapTop st) document;
                            st = st\<lparr>heapTop := top\<rparr>
                        in if statusCode = 304 then (st, None)
                           else
                             let st = st\<lparr>cache := Some \<lparr>etag = map_of headers ''etag'', body = b\<rparr>\<rparr>;
                                 (copy, top) = cloneDeep (heapTop st) b
                             in (st\<lparr>emitted := emitted st @ [(copy, force, isFromApi)],
                                     heapTop := top\<rparr>,
                                 None)))"

definition update ::
  "environment \<Rightarrow> bool \<Rightarrow> bool \<Rightarrow> target_state \<Rightarrow> target_state \<times> error option" where
  "update env force isFromApi st =
     (let (st, failed) = fetch env force isFromApi st
      in (st\<lparr>lastFetch := Some (hrtime env)\<rparr>, failed))"

text \<open>\<open>get\<close>: a fetch when there is no cache yet, then a deep copy of the cached body.\<close>

definition get :: "environment \<Rightarrow> target_state \<Rightarrow> target_state \<times> (error + jsvalue)" where
  "get env st =
     (let (st, failed) = (if cache st = None then update env False False st else (st, None))
      in case failed of
           Some e \<Rightarrow> (st, Inl e)
         | None \<Rightarrow>
             (case cache st of
                None \<Rightarrow> (st, Inl TypeError)
              | Some c \<Rightarrow>
                  let (copy, top) = cloneDeep (heapTop st) (body c)
                  in (st\<lparr>heapTop := top\<rparr>, Inr copy)))"

text \<open>
  Modelled from the spec: the remote target-state endpoint, which is not part of the
  sources, "supporting conditional fetch via If-None-Match/ETag; 304 means unchanged; 200
  returns the full JSON document plus an etag response header". It serves one document
  under one validation token.
\<close>

definition targetStateEndpoint :: "string \<Rightarrow> json \<Rightarrow> request \<Rightarrow> reply" where
  "targetStateEndpoint token document req =
     (if (case opt_headers (req_options req) of
            None \<Rightarrow> False
          | Some hs \<Rightarrow> map_of hs ''If-None-Match'' = Some token)
      then Reply 304 [(''etag'', Single token)] JNull 0
      else Reply 200 [(''etag'', Single token)] document 0)"

subsection \<open>poll\<close>

text \<open>
  One cycle of \<open>poll\<close> meets: the configured \<open>appUpdatePollInterval\<close> (\<open>None\<close> when the
  configuration cannot be read), the number \<open>Math.random()\<close> returns, and what
  \<open>update\<close> meets. The poller's state is the module's, with its count of failures.
\<close>

record cycle =
  appUpdatePollInterval :: "int option"
  random :: real
  world :: environment

record poller =
  targetState :: target_state
  targetStateFetchErrors :: nat

text \<open>The delay a cycle sleeps, in milliseconds, and the state it leaves.
  \<open>maxApiJitterDelay\<close> is a constant of the module \<open>lib/constants\<close>.\<close>

definition pollCycle :: "real \<Rightarrow> cycle \<Rightarrow> bool \<Rightarrow> poller \<Rightarrow> real \<times> poller" where
  "pollCycle maxApiJitterDelay c skipFirstGet p =
     (case appUpdatePollInterval c of
        None \<Rightarrow> (10000, p)
      | Some interval \<Rightarrow>
          let pollInterval = random c * maxApiJitterDelay + real_of_int interval
          in if \<not> skipFirstGet then
               (case update (world c) False False (targetState p) of
                  (st, None) \<Rightarrow>
                    (pollInterval, p\<lparr>targetState := st, targetStateFetchErrors := 0\<rparr>)
                | (st, Some e) \<Rightarrow>
                    (min (real_of_int interval) (15000 * 2 ^ targetStateFetchErrors p),
                     p\<lparr>targetState := st,
                       targetStateFetchErrors := targetStateFetchErrors p + 1\<rparr>))
             else (pollInterval, p))"

text \<open>
  \<open>poll\<close> never returns: each cycle ends by calling \<open>poll()\<close> again. The model runs it
  for as many cycles as the list describes and returns the delays slept, in order; only
  the first cycle can skip its fetch.
\<close>

fun poll :: "real \<Rightarrow> cycle list \<Rightarrow> bool \<Rightarrow> poller \<Rightarrow> real list \<times> poller" where
  "poll maxApiJitterDelay [] skipFirstGet p = ([], p)"
| "poll maxApiJitterDelay (c # cs) skipFirstGet p =
     (let (delay, p) = pollCycle maxApiJitterDelay c skipFirstGet p;
          (delays, p) = poll maxApiJitterDelay cs False p
      in (delay # delays, p))"


section \<open>Properties\<close>

subsection \<open>The action executor\<close>

text \<open>
  C7, as stated, fails: a step whose action is \<open>fetch\<close>, one of the five actions of a
  step, is refused with the invalid-action error, because the table of executors has no
  entry for it.
\<close>

theorem executeStepAction_fetch_invalid:
  "action \<lparr>action = ''fetch'', step_appId = Some (IdKey ''5''),
            step_image = Some \<lparr>img_name = Some ''img:abc'', img_imageId = Some 7, img_appId = 5,
                                img_dependent = True\<rparr>,
            step_devices = None, step_app = None\<rparr>
     \<in> {''fetch'', ''updateDependentTargets'', ''removeDependentApp'', ''sendDependentHooks'', ''noop''}
   \<and> executeStepAction
        \<lparr>action = ''fetch'', step_appId = Some (IdKey ''5''),
         step_image = Some \<lparr>img_name = Some ''img:abc'', img_imageId = Some 7, img_appId = 5,
                             img_dependent = True\<rparr>,
         step_devices = None, step_app = None\<rparr>
       = Inl (InvalidAction ''fetch'')"
  by (simp add: executeStepAction_def getProperty_def actionExecutors_def objectPrototype_def)

text \<open>
  C7, amended: the table has three executors, \<open>updateDependentTargets\<close>,
  \<open>sendDependentHooks\<close> and \<open>removeDependentApp\<close>. A step with one of these actions is
  handed to the executor of that name and never meets the invalid-action error. A
  \<open>fetch\<close> or \<open>noop\<close> step fails with the invalid-action error, and so does a step
  with any other action that is outside the three and is not the name of a member of
  \<open>Object.prototype\<close>. What becomes of a step named after such a member is not part of
  the statement.
\<close>

theorem executeStepAction_dispatch:
  "set validActions = {''updateDependentTargets'', ''sendDependentHooks'', ''removeDependentApp''}
   \<and> (action s \<in> set validActions \<longrightarrow>
        (\<exists>h. (action s, h) \<in> set actionExecutors \<and> executeStepAction s = Inr (Executor h s)))
   \<and> (action s \<in> {''fetch'', ''noop''} \<longrightarrow>
        executeStepAction s = Inl (InvalidAction (action s)))
   \<and> (action s \<notin> set validActions \<and> action s \<notin> set objectPrototype \<longrightarrow>
        executeStepAction s = Inl (InvalidAction (action s)))
   \<and> ((\<exists>a. executeStepAction s = Inl (InvalidAction a)) \<longrightarrow>
        action s \<notin> set validActions)"
  by (auto simp add: executeStepAction_def getProperty_def actionExecutors_def
      objectPrototype_def validActions_def throwingMembers_def split: option.splits)

theorem executeStepAction_dispatch_witness:
  "executeStepAction
     \<lparr>action = ''removeDependentApp'', step_appId = Some (IdNumber 5), step_image = None,
      step_devices = None, step_app = None\<rparr>
   = Inr (Executor RemoveDependentApp
           \<lparr>action = ''removeDependentApp'', step_appId = Some (IdNumber 5), step_image = None,
            step_devices = None, step_app = None\<rparr>)
   \<and> executeStepAction noop = Inl (InvalidAction ''noop'')
   \<and> executeStepAction
     \<lparr>action = ''restart'', step_appId = Some (IdNumber 5), step_image = None,
      step_devices = None, step_app = None\<rparr>
   = Inl (InvalidAction ''restart'')"
  using executeStepAction_dispatch
          [of "\<lparr>action = ''removeDependentApp'', step_appId = Some (IdNumber 5),
                step_image = None, step_devices = None, step_app = None\<rparr>"]
        executeStepAction_dispatch [of noop]
        executeStepAction_dispatch
          [of "\<lparr>action = ''restart'', step_appId = Some (IdNumber 5),
                step_image = None, step_devices = None, step_app = None\<rparr>"]
  by (simp add: validActions_def actionExecutors_def noop_def objectPrototype_def)

subsection \<open>The diff engine\<close>

lemma set_obj_set: "set (obj_set k v obj) \<subseteq> insert (k, v) (set obj)"
  by (induction obj) (auto split: if_splits)

lemma fold_obj_set_keys:
  "\<forall>(k, a)\<in>set obj. String (app_appId a) = k \<Longrightarrow>
   \<forall>(k, a)\<in>set (fold (\<lambda>a obj. obj_set (String (app_appId a)) a obj) apps obj).
      String (app_appId a) = k"
proof (induction apps arbitrary: obj)
  case Nil
  then show ?case by simp
next
  case (Cons a apps)
  have "\<forall>(k, b)\<in>set (obj_set (String (app_appId a)) a obj). String (app_appId b) = k"
    using Cons.prems set_obj_set [of "String (app_appId a)" a obj] by auto
  then show ?case using Cons.IH by simp
qed

lemma keyBy_key: "map_of (keyBy apps) k = Some c \<Longrightarrow> String (app_appId c) = k"
  using fold_obj_set_keys [of "[]" apps] by (auto simp: keyBy_def dest!: map_of_SomeD)

text \<open>
  C5: an app that the keyed current apps have under \<open>appId\<close> and the keyed target apps
  do not gets exactly one step, \<open>removeDependentApp\<close> with the id of that app, whatever
  the images, the downloads, the devices and the steps in progress are.
\<close>

theorem removal_has_priority:
  assumes "map_of (keyBy currentApps) appId = Some c"
    and "map_of (keyBy targetApps) appId = None"
  shows "nextStepsForDependentApp this appId availableImages downloading
           (map_of (keyBy currentApps) appId) (map_of (keyBy targetApps) appId)
           currentDevices targetDevices stepsInProgress
         = Inr [\<lparr>action = ''removeDependentApp'', step_appId = Some (IdNumber (app_appId c)),
                 step_image = None, step_devices = None, step_app = None\<rparr>]
         \<and> String (app_appId c) = appId"
  using assms keyBy_key [of currentApps appId c]
  by (simp add: nextStepsForDependentApp_def)

theorem removal_has_priority_witness:
  "nextStepsForDependentApp
     \<lparr>acknowledgedState = Map.empty, lastRequestForDevice = Map.empty, errorLog = []\<rparr>
     ''5'' [] []
     (map_of (keyBy [\<lparr>app_appId = 5, app_name = JStr ''sensor'', app_commit = Some ''abc'',
        app_releaseId = JNum 1, app_image = Some ''img:abc'', app_imageId = Some 7,
        app_config = JObj [], app_environment = JObj [], app_parentApp = Some 1\<rparr>]) ''5'')
     (map_of (keyBy []) ''5'') [] [] []
   = Inr [\<lparr>action = ''removeDependentApp'', step_appId = Some (IdNumber 5),
           step_image = None, step_devices = None, step_app = None\<rparr>]"
  using removal_has_priority
    [of "[\<lparr>app_appId = 5, app_name = JStr ''sensor'', app_commit = Some ''abc'',
           app_releaseId = JNum 1, app_image = Some ''img:abc'', app_imageId = Some 7,
           app_config = JObj [], app_environment = JObj [], app_parentApp = Some 1\<rparr>]"
        "''5''" _ "[]"
        "\<lparr>acknowledgedState = Map.empty, lastRequestForDevice = Map.empty, errorLog = []\<rparr>"
        "[]" "[]" "[]" "[]" "[]"]
  by (simp add: keyBy_def String_def decimal.simps digit_def)

lemma hookDevices_uuids:
  assumes "\<forall>d\<in>set devs. \<not> cd_markedForDeletion d \<longrightarrow> map_of (cd_apps d) appId \<noteq> None"
  shows "\<exists>ds. hookDevices this appId devs pushed = Inr (pushed @ ds)
     \<and> hd_uuid ` set ds =
         {u. \<exists>d\<in>set devs. cd_uuid d = u
              \<and> (cd_markedForDeletion d
                 \<or> (\<exists>a. map_of (cd_apps d) appId = Some a \<and> as_targetCommit a \<noteq> None
                      \<and> \<not> isEqual_state (targetStateOf appId a) (currentStateOf appId a)
                      \<and> \<not> isEqual_ack (targetStateOf appId a) (acknowledgedState this u)))}"
  using assms
proof (induction devs arbitrary: pushed)
  case Nil
  then show ?case by simp
next
  case (Cons d devs)
  let ?Q = "\<lambda>d. cd_markedForDeletion d
                 \<or> (\<exists>a. map_of (cd_apps d) appId = Some a \<and> as_targetCommit a \<noteq> None
                      \<and> \<not> isEqual_state (targetStateOf appId a) (currentStateOf appId a)
                      \<and> \<not> isEqual_ack (targetStateOf appId a) (acknowledgedState this (cd_uuid d)))"
  have rest: "\<forall>d\<in>set devs. \<not> cd_markedForDeletion d \<longrightarrow> map_of (cd_apps d) appId \<noteq> None"
    using Cons.prems by simp
  show ?case
  proof (cases "?Q d")
    case True
    then obtain e where step: "hookDevices this appId (d # devs) pushed
        = hookDevices this appId devs (pushed @ [e])" and e: "hd_uuid e = cd_uuid d"
      by (cases "cd_markedForDeletion d") (auto simp: Let_def)
    from Cons.IH [OF rest, of "pushed @ [e]"] obtain ds where
      ds: "hookDevices this appId devs (pushed @ [e]) = Inr ((pushed @ [e]) @ ds)"
      and us: "hd_uuid ` set ds = {u. \<exists>d\<in>set devs. cd_uuid d = u \<and> (cd_markedForDeletion d
                 \<or> (\<exists>a. map_of (cd_apps d) appId = Some a \<and> as_targetCommit a \<noteq> None
                      \<and> \<not> isEqual_state (targetStateOf appId a) (currentStateOf appId a)
                      \<and> \<not> isEqual_ack (targetStateOf appId a) (acknowledgedState this u)))}"
      by blast
    have run: "hookDevices this appId (d # devs) pushed = Inr (pushed @ (e # ds))"
      using step ds by simp
    have "hd_uuid ` set (e # ds) = {u. \<exists>d'\<in>set (d # devs). cd_uuid d' = u \<and> (cd_markedForDeletion d'
                 \<or> (\<exists>a. map_of (cd_apps d') appId = Some a \<and> as_targetCommit a \<noteq> None
                      \<and> \<not> isEqual_state (targetStateOf appId a) (currentStateOf appId a)
                      \<and> \<not> isEqual_ack (targetStateOf appId a) (acknowledgedState this u)))}"
      using us e True by auto
    with run show ?thesis by (intro exI [of _ "e # ds"]) simp
  next
    case False
    then have nm: "\<not> cd_markedForDeletion d" by simp
    then obtain a where a: "map_of (cd_apps d) appId = Some a" using Cons.prems by auto
    have step: "hookDevices this appId (d # devs) pushed = hookDevices this appId devs pushed"
      using False nm a by (auto simp: Let_def)
    from Cons.IH [OF rest, of pushed] obtain ds where
      ds: "hookDevices this appId devs pushed = Inr (pushed @ ds)"
      and us: "hd_uuid ` set ds = {u. \<exists>d\<in>set devs. cd_uuid d = u \<and> (cd_markedForDeletion d
                 \<or> (\<exists>a. map_of (cd_apps d) appId = Some a \<and> as_targetCommit a \<noteq> None
                      \<and> \<not> isEqual_state (targetStateOf appId a) (currentStateOf appId a)
                      \<and> \<not> isEqual_ack (targetStateOf appId a) (acknowledgedState this u)))}"
      by blast
    have eq: "hd_uuid ` set ds = {u. \<exists>d'\<in>set (d # devs). cd_uuid d' = u \<and> (cd_markedForDeletion d'
                 \<or> (\<exists>a. map_of (cd_apps d') appId = Some a \<and> as_targetCommit a \<noteq> None
                      \<and> \<not> isEqual_state (targetStateOf appId a) (currentStateOf appId a)
                      \<and> \<not> isEqual_ack (targetStateOf appId a) (acknowledgedState this u)))}"
      using us False by auto
    have "hookDevices this appId (d # devs) pushed = Inr (pushed @ ds)"
      using step ds by simp
    with eq show ?thesis by (intro exI [of _ ds]) simp
  qed
qed

lemma currentDeviceTargets_defined:
  "currentDeviceTargets appId devs = Inr ts \<Longrightarrow>
   \<forall>d\<in>set devs. \<not> cd_markedForDeletion d \<longrightarrow> map_of (cd_apps d) appId \<noteq> None"
  by (induction devs arbitrary: ts) (auto simp: Let_def split: if_splits option.splits sum.splits)

lemma hookDevices_ack_cong:
  "\<forall>d\<in>set devs. acknowledgedState this (cd_uuid d) = acknowledgedState that (cd_uuid d) \<Longrightarrow>
   hookDevices this appId devs pushed = hookDevices that appId devs pushed"
  by (induction devs arbitrary: pushed) (auto simp: Let_def split: option.splits)

text \<open>
  C6, as stated, fails, in three ways. In each, current and target app are equal and the
  one device, not marked for deletion, has on record the target that the target device
  has; its target state differs from its current state and nothing is acknowledged.
  First, its target commit is \<open>null\<close>: no step is emitted. Second, it has a target
  commit, and a step in progress targets the parent app: the only step is a \<open>noop\<close>.
  Third, the target image is not available: the only step is a \<open>fetch\<close>. In none is
  the device in a \<open>sendDependentHooks\<close> step.
\<close>

theorem settled_state_without_hook:
  "isEqual_app
     (Some \<lparr>app_appId = 5, app_name = JStr ''sensor'', app_commit = None,
       app_releaseId = JNull, app_image = None, app_imageId = None,
       app_config = JObj [], app_environment = JObj [], app_parentApp = None\<rparr>)
     \<lparr>app_appId = 5, app_name = JStr ''sensor'', app_commit = None,
       app_releaseId = JNull, app_image = None, app_imageId = None,
       app_config = JObj [], app_environment = JObj [], app_parentApp = None\<rparr>
   \<and> compareDevices
     [\<lparr>cd_uuid = ''d1'', cd_name = JStr ''one'', cd_lock_expiry_date = JNull,
       cd_markedForDeletion = False,
       cd_apps = [(''5'', \<lparr>as_commit = None, as_config = JObj [], as_environment = JObj [],
         as_targetCommit = None, as_targetEnvironment = JObj [],
         as_targetConfig = JObj [(''mode'', JStr ''fast'')]\<rparr>)]\<rparr>]
     [\<lparr>td_uuid = ''d1'', td_name = JStr ''one'',
       td_apps = [(''5'', JObj [(''commit'', JNull),
                               (''config'', JObj [(''mode'', JStr ''fast'')]),
                               (''environment'', JObj [])])]\<rparr>]
     ''5'' = Inr False
   \<and> \<not> isEqual_state
     (targetStateOf ''5''
        \<lparr>as_commit = None, as_config = JObj [], as_environment = JObj [],
         as_targetCommit = None, as_targetEnvironment = JObj [],
         as_targetConfig = JObj [(''mode'', JStr ''fast'')]\<rparr>)
     (currentStateOf ''5''
        \<lparr>as_commit = None, as_config = JObj [], as_environment = JObj [],
         as_targetCommit = None, as_targetEnvironment = JObj [],
         as_targetConfig = JObj [(''mode'', JStr ''fast'')]\<rparr>)
   \<and> \<not> isEqual_ack
     (targetStateOf ''5''
        \<lparr>as_commit = None, as_config = JObj [], as_environment = JObj [],
         as_targetCommit = None, as_targetEnvironment = JObj [],
         as_targetConfig = JObj [(''mode'', JStr ''fast'')]\<rparr>)
     (acknowledgedState
        \<lparr>acknowledgedState = Map.empty, lastRequestForDevice = Map.empty, errorLog = []\<rparr>
        ''d1'')
   \<and> nextStepsForDependentApp
     \<lparr>acknowledgedState = Map.empty, lastRequestForDevice = Map.empty, errorLog = []\<rparr>
     ''5'' [] []
     (Some \<lparr>app_appId = 5, app_name = JStr ''sensor'', app_commit = None,
       app_releaseId = JNull, app_image = None, app_imageId = None,
       app_config = JObj [], app_environment = JObj [], app_parentApp = None\<rparr>)
     (Some \<lparr>app_appId = 5, app_name = JStr ''sensor'', app_commit = None,
       app_releaseId = JNull, app_image = None, app_imageId = None,
       app_config = JObj [], app_environment = JObj [], app_parentApp = None\<rparr>)
     [\<lparr>cd_uuid = ''d1'', cd_name = JStr ''one'', cd_lock_expiry_date = JNull,
       cd_markedForDeletion = False,
       cd_apps = [(''5'', \<lparr>as_commit = None, as_config = JObj [], as_environment = JObj [],
         as_targetCommit = None, as_targetEnvironment = JObj [],
         as_targetConfig = JObj [(''mode'', JStr ''fast'')]\<rparr>)]\<rparr>]
     [\<lparr>td_uuid = ''d1'', td_name = JStr ''one'',
       td_apps = [(''5'', JObj [(''commit'', JNull),
                               (''config'', JObj [(''mode'', JStr ''fast'')]),
                               (''environment'', JObj [])])]\<rparr>]
     []
   = Inr []
   \<and> isEqual_app
     (Some \<lparr>app_appId = 5, app_name = JStr ''sensor'', app_commit = Some ''abc'',
       app_releaseId = JNull, app_image = None, app_imageId = None,
       app_config = JObj [], app_environment = JObj [], app_parentApp = Some 1\<rparr>)
     \<lparr>app_appId = 5, app_name = JStr ''sensor'', app_commit = Some ''abc'',
       app_releaseId = JNull, app_image = None, app_imageId = None,
       app_config = JObj [], app_environment = JObj [], app_parentApp = Some 1\<rparr>
   \<and> compareDevices
     [\<lparr>cd_uuid = ''d1'', cd_name = JStr ''one'', cd_lock_expiry_date = JNull,
       cd_markedForDeletion = False,
       cd_apps = [(''5'', \<lparr>as_commit = None, as_config = JObj [], as_environment = JObj [],
         as_targetCommit = Some ''abc'', as_targetEnvironment = JObj [],
         as_targetConfig = JObj []\<rparr>)]\<rparr>]
     [\<lparr>td_uuid = ''d1'', td_name = JStr ''one'',
       td_apps = [(''5'', JObj [(''commit'', JStr ''abc''), (''config'', JObj []),
                               (''environment'', JObj [])])]\<rparr>]
     ''5'' = Inr False
   \<and> as_targetCommit
        \<lparr>as_commit = None, as_config = JObj [], as_environment = JObj [],
         as_targetCommit = Some ''abc'', as_targetEnvironment = JObj [],
         as_targetConfig = JObj []\<rparr> \<noteq> None
   \<and> \<not> isEqual_state
     (targetStateOf ''5''
        \<lparr>as_commit = None, as_config = JObj [], as_environment = JObj [],
         as_targetCommit = Some ''abc'', as_targetEnvironment = JObj [],
         as_targetConfig = JObj []\<rparr>)
     (currentStateOf ''5''
        \<lparr>as_commit = None, as_config = JObj [], as_environment = JObj [],
         as_targetCommit = Some ''abc'', as_targetEnvironment = JObj [],
         as_targetConfig = JObj []\<rparr>)
   \<and> \<not> isEqual_ack
     (targetStateOf ''5''
        \<lparr>as_commit = None, as_config = JObj [], as_environment = JObj [],
         as_targetCommit = Some ''abc'', as_targetEnvironment = JObj [],
         as_targetConfig = JObj []\<rparr>)
     (acknowledgedState
        \<lparr>acknowledgedState = Map.empty, lastRequestForDevice = Map.empty, errorLog = []\<rparr>
        ''d1'')
   \<and> nextStepsForDependentApp
     \<lparr>acknowledgedState = Map.empty, lastRequestForDevice = Map.empty, errorLog = []\<rparr>
     ''5'' [] []
     (Some \<lparr>app_appId = 5, app_name = JStr ''sensor'', app_commit = Some ''abc'',
       app_releaseId = JNull, app_image = None, app_imageId = None,
       app_config = JObj [], app_environment = JObj [], app_parentApp = Some 1\<rparr>)
     (Some \<lparr>app_appId = 5, app_name = JStr ''sensor'', app_commit = Some ''abc'',
       app_releaseId = JNull, app_image = None, app_imageId = None,
       app_config = JObj [], app_environment = JObj [], app_parentApp = Some 1\<rparr>)
     [\<lparr>cd_uuid = ''d1'', cd_name = JStr ''one'', cd_lock_expiry_date = JNull,
       cd_markedForDeletion = False,
       cd_apps = [(''5'', \<lparr>as_commit = None, as_config = JObj [], as_environment = JObj [],
         as_targetCommit = Some ''abc'', as_targetEnvironment = JObj [],
         as_targetConfig = JObj []\<rparr>)]\<rparr>]
     [\<lparr>td_uuid = ''d1'', td_name = JStr ''one'',
       td_apps = [(''5'', JObj [(''commit'', JStr ''abc''), (''config'', JObj []),
                               (''environment'', JObj [])])]\<rparr>]
     [\<lparr>action = ''fetch'', step_appId = Some (IdNumber 1), step_image = None,
       step_devices = None, step_app = None\<rparr>]
   = Inr [noop]
   \<and> isEqual_app
     (Some \<lparr>app_appId = 5, app_name = JStr ''sensor'', app_commit = Some ''abc'',
       app_releaseId = JNull, app_image = Some ''img:abc'', app_imageId = Some 7,
       app_config = JObj [], app_environment = JObj [], app_parentApp = None\<rparr>)
     \<lparr>app_appId = 5, app_name = JStr ''sensor'', app_commit = Some ''abc'',
       app_releaseId = JNull, app_image = Some ''img:abc'', app_imageId = Some 7,
       app_config = JObj [], app_environment = JObj [], app_parentApp = None\<rparr>
   \<and> compareDevices
     [\<lparr>cd_uuid = ''d1'', cd_name = JStr ''one'', cd_lock_expiry_date = JNull,
       cd_markedForDeletion = False,
       cd_apps = [(''5'', \<lparr>as_commit = None, as_config = JObj [], as_environment = JObj [],
         as_targetCommit = Some ''abc'', as_targetEnvironment = JObj [],
         as_targetConfig = JObj []\<rparr>)]\<rparr>]
     [\<lparr>td_uuid = ''d1'', td_name = JStr ''one'',
       td_apps = [(''5'', JObj [(''commit'', JStr ''abc''), (''config'', JObj []),
                               (''environment'', JObj [])])]\<rparr>]
     ''5'' = Inr False
   \<and> nextStepsForDependentApp
     \<lparr>acknowledgedState = Map.empty, lastRequestForDevice = Map.empty, errorLog = []\<rparr>
     ''5'' [] []
     (Some \<lparr>app_appId = 5, app_name = JStr ''sensor'', app_commit = Some ''abc'',
       app_releaseId = JNull, app_image = Some ''img:abc'', app_imageId = Some 7,
       app_config = JObj [], app_environment = JObj [], app_parentApp = None\<rparr>)
     (Some \<lparr>app_appId = 5, app_name = JStr ''sensor'', app_commit = Some ''abc'',
       app_releaseId = JNull, app_image = Some ''img:abc'', app_imageId = Some 7,
       app_config = JObj [], app_environment = JObj [], app_parentApp = None\<rparr>)
     [\<lparr>cd_uuid = ''d1'', cd_name = JStr ''one'', cd_lock_expiry_date = JNull,
       cd_markedForDeletion = False,
       cd_apps = [(''5'', \<lparr>as_commit = None, as_config = JObj [], as_environment = JObj [],
         as_targetCommit = Some ''abc'', as_targetEnvironment = JObj [],
         as_targetConfig = JObj []\<rparr>)]\<rparr>]
     [\<lparr>td_uuid = ''d1'', td_name = JStr ''one'',
       td_apps = [(''5'', JObj [(''commit'', JStr ''abc''), (''config'', JObj []),
                               (''environment'', JObj [])])]\<rparr>]
     []
   = Inr [\<lparr>action = ''fetch'', step_appId = Some (IdKey ''5''),
           step_image = Some \<lparr>img_name = Some ''img:abc'', img_imageId = Some 7,
                               img_appId = 5, img_dependent = True\<rparr>,
           step_devices = None, step_app = None\<rparr>]"
  by (simp add: nextStepsForDependentApp_def targetsParent_def compareDevices_def xorWith_def
      differenceWith_def isEqual_device_def jsonOfString_def isEqual_app_def getHookStep_def
      targetStateOf_def currentStateOf_def isEqual_state_def isEqual_ack_def noop_def
      imageAvailable_def imageForDependentApp_def)

text \<open>
  C6, amended: in the settled state (current app equals target app and device targets
  match), a step in progress on the parent app gives the single step \<open>noop\<close>, and
  otherwise a target image that is set, with a commit, and not available gives the single
  step \<open>noop\<close> or \<open>fetch\<close>. Otherwise the step list is empty or the one
  \<open>sendDependentHooks\<close> step, and a uuid is among the devices of that step if and only
  if a current device of that uuid is marked for deletion, or has a target commit that is
  not \<open>null\<close> and a target state that differs both from its current state and from the
  state acknowledged for the uuid. In particular a uuid whose devices are not marked for
  deletion and have their target state acknowledged gets no hook entry.
\<close>

theorem settled_hook_step:
  assumes "isEqual_app current t"
    and "compareDevices currentDevices targetDevices appId = Inr False"
  shows "(list_ex (\<lambda>s. targetsParent s t) stepsInProgress \<longrightarrow>
        nextStepsForDependentApp this appId availableImages downloading current (Some t)
          currentDevices targetDevices stepsInProgress
        = Inr [noop])
    \<and> (\<not> list_ex (\<lambda>s. targetsParent s t) stepsInProgress
        \<and> app_commit t \<noteq> None
          \<and> (\<exists>i. app_image t = Some i \<and> \<not> imageAvailable i availableImages) \<longrightarrow>
        nextStepsForDependentApp this appId availableImages downloading current (Some t)
          currentDevices targetDevices stepsInProgress
        = Inr [if (\<exists>i. app_imageId t = Some i \<and> i \<in> set downloading) then noop
               else \<lparr>action = ''fetch'', step_appId = Some (IdKey appId),
                     step_image = Some (imageForDependentApp t), step_devices = None,
                     step_app = None\<rparr>])
    \<and> (\<not> list_ex (\<lambda>s. targetsParent s t) stepsInProgress
        \<and> \<not> (app_commit t \<noteq> None
          \<and> (\<exists>i. app_image t = Some i \<and> \<not> imageAvailable i availableImages)) \<longrightarrow>
        (\<exists>ds.
          nextStepsForDependentApp this appId availableImages downloading current (Some t)
          currentDevices targetDevices stepsInProgress
          = Inr (if ds = [] then []
                 else [\<lparr>action = ''sendDependentHooks'', step_appId = Some (IdKey appId),
                        step_image = None, step_devices = Some (HookDevices ds),
                        step_app = None\<rparr>])
          \<and> (\<forall>u. u \<in> hd_uuid ` set ds \<longleftrightarrow>
                (\<exists>d\<in>set currentDevices. cd_uuid d = u
                   \<and> (cd_markedForDeletion d
                  \<or> (\<exists>a. map_of (cd_apps d) appId = Some a \<and> as_targetCommit a \<noteq> None
                       \<and> \<not> isEqual_state (targetStateOf appId a) (currentStateOf appId a)
                       \<and> \<not> isEqual_ack (targetStateOf appId a) (acknowledgedState this u)))))
          \<and> (\<forall>u. (\<forall>d\<in>set currentDevices. cd_uuid d = u \<longrightarrow>
                     \<not> cd_markedForDeletion d
                     \<and> (\<exists>a. map_of (cd_apps d) appId = Some a
                          \<and> isEqual_ack (targetStateOf appId a) (acknowledgedState this u)))
                 \<longrightarrow> u \<notin> hd_uuid ` set ds)))"
proof (intro conjI impI)
  assume "list_ex (\<lambda>s. targetsParent s t) stepsInProgress"
  then show "nextStepsForDependentApp this appId availableImages downloading current (Some t)
          currentDevices targetDevices stepsInProgress
        = Inr [noop]"
    by (simp add: nextStepsForDependentApp_def)
next
  assume "\<not> list_ex (\<lambda>s. targetsParent s t) stepsInProgress
        \<and> app_commit t \<noteq> None
          \<and> (\<exists>i. app_image t = Some i \<and> \<not> imageAvailable i availableImages)"
  then show "nextStepsForDependentApp this appId availableImages downloading current (Some t)
          currentDevices targetDevices stepsInProgress
        = Inr [if (\<exists>i. app_imageId t = Some i \<and> i \<in> set downloading) then noop
               else \<lparr>action = ''fetch'', step_appId = Some (IdKey appId),
                     step_image = Some (imageForDependentApp t), step_devices = None,
                     step_app = None\<rparr>]"
    by (auto simp: nextStepsForDependentApp_def split: option.splits)
next
  assume gates: "\<not> list_ex (\<lambda>s. targetsParent s t) stepsInProgress
        \<and> \<not> (app_commit t \<noteq> None
          \<and> (\<exists>i. app_image t = Some i \<and> \<not> imageAvailable i availableImages))"
  obtain ts where "currentDeviceTargets appId currentDevices = Inr ts"
    using assms(2) by (auto simp: compareDevices_def split: sum.splits)
  then have "\<forall>d\<in>set currentDevices.
      \<not> cd_markedForDeletion d \<longrightarrow> map_of (cd_apps d) appId \<noteq> None"
    by (rule currentDeviceTargets_defined)
  from hookDevices_uuids [OF this, of this "[]"] obtain ds where
    run: "hookDevices this appId currentDevices [] = Inr ds"
    and us: "hd_uuid ` set ds =
         {u. \<exists>d\<in>set currentDevices. cd_uuid d = u
              \<and> (cd_markedForDeletion d
                  \<or> (\<exists>a. map_of (cd_apps d) appId = Some a \<and> as_targetCommit a \<noteq> None
                       \<and> \<not> isEqual_state (targetStateOf appId a) (currentStateOf appId a)
                       \<and> \<not> isEqual_ack (targetStateOf appId a) (acknowledgedState this u)))}"
    by auto
  have steps: "nextStepsForDependentApp this appId availableImages downloading current (Some t)
          currentDevices targetDevices stepsInProgress
      = Inr (if ds = [] then []
             else [\<lparr>action = ''sendDependentHooks'', step_appId = Some (IdKey appId),
                    step_image = None, step_devices = Some (HookDevices ds),
                    step_app = None\<rparr>])"
    using assms gates run
    by (auto simp: nextStepsForDependentApp_def getHookStep_def split: option.splits)
  have iff: "\<forall>u. u \<in> hd_uuid ` set ds \<longleftrightarrow>
            (\<exists>d\<in>set currentDevices. cd_uuid d = u
               \<and> (cd_markedForDeletion d
                  \<or> (\<exists>a. map_of (cd_apps d) appId = Some a \<and> as_targetCommit a \<noteq> None
                       \<and> \<not> isEqual_state (targetStateOf appId a) (currentStateOf appId a)
                       \<and> \<not> isEqual_ack (targetStateOf appId a) (acknowledgedState this u))))"
    unfolding us by simp
  have quiet: "\<forall>u. (\<forall>d\<in>set currentDevices. cd_uuid d = u \<longrightarrow>
                 \<not> cd_markedForDeletion d
                 \<and> (\<exists>a. map_of (cd_apps d) appId = Some a
                      \<and> isEqual_ack (targetStateOf appId a) (acknowledgedState this u)))
             \<longrightarrow> u \<notin> hd_uuid ` set ds"
    unfolding us by fastforce
  from steps iff quiet show "(\<exists>ds.
          nextStepsForDependentApp this appId availableImages downloading current (Some t)
          currentDevices targetDevices stepsInProgress
          = Inr (if ds = [] then []
                 else [\<lparr>action = ''sendDependentHooks'', step_appId = Some (IdKey appId),
                        step_image = None, step_devices = Some (HookDevices ds),
                        step_app = None\<rparr>])
          \<and> (\<forall>u. u \<in> hd_uuid ` set ds \<longleftrightarrow>
                (\<exists>d\<in>set currentDevices. cd_uuid d = u
                   \<and> (cd_markedForDeletion d
                  \<or> (\<exists>a. map_of (cd_apps d) appId = Some a \<and> as_targetCommit a \<noteq> None
                       \<and> \<not> isEqual_state (targetStateOf appId a) (currentStateOf appId a)
                       \<and> \<not> isEqual_ack (targetStateOf appId a) (acknowledgedState this u)))))
          \<and> (\<forall>u. (\<forall>d\<in>set currentDevices. cd_uuid d = u \<longrightarrow>
                     \<not> cd_markedForDeletion d
                     \<and> (\<exists>a. map_of (cd_apps d) appId = Some a
                          \<and> isEqual_ack (targetStateOf appId a) (acknowledgedState this u)))
                 \<longrightarrow> u \<notin> hd_uuid ` set ds))"
    by blast
qed

theorem settled_hook_step_witness:
  "nextStepsForDependentApp
     \<lparr>acknowledgedState = Map.empty, lastRequestForDevice = Map.empty, errorLog = []\<rparr>
     ''5'' [] []
     (Some \<lparr>app_appId = 5, app_name = JStr ''sensor'', app_commit = Some ''abc'',
       app_releaseId = JNull, app_image = None, app_imageId = None,
       app_config = JObj [], app_environment = JObj [], app_parentApp = None\<rparr>)
     (Some \<lparr>app_appId = 5, app_name = JStr ''sensor'', app_commit = Some ''abc'',
       app_releaseId = JNull, app_image = None, app_imageId = None,
       app_config = JObj [], app_environment = JObj [], app_parentApp = None\<rparr>)
     [\<lparr>cd_uuid = ''d1'', cd_name = JStr ''one'', cd_lock_expiry_date = JNull,
       cd_markedForDeletion = False,
       cd_apps = [(''5'', \<lparr>as_commit = None, as_config = JObj [], as_environment = JObj [],
         as_targetCommit = Some ''abc'', as_targetEnvironment = JObj [],
         as_targetConfig = JObj []\<rparr>)]\<rparr>]
     [\<lparr>td_uuid = ''d1'', td_name = JStr ''one'',
       td_apps = [(''5'', JObj [(''commit'', JStr ''abc''), (''config'', JObj []),
                               (''environment'', JObj [])])]\<rparr>]
     []
   = Inr [\<lparr>action = ''sendDependentHooks'', step_appId = Some (IdKey ''5''),
           step_image = None,
           step_devices = Some (HookDevices
             [\<lparr>hd_uuid = ''d1'', hd_target = Some \<lparr>ds_appId = ''5'', ds_commit = Some ''abc'', ds_config = JObj [],
         ds_environment = JObj []\<rparr>,
               hd_markedForDeletion = False\<rparr>]),
           step_app = None\<rparr>]
   \<and> nextStepsForDependentApp
     \<lparr>acknowledgedState = [''d1'' \<mapsto> Target \<lparr>ds_appId = ''5'', ds_commit = Some ''abc'', ds_config = JObj [],
         ds_environment = JObj []\<rparr>],
      lastRequestForDevice = Map.empty, errorLog = []\<rparr>
     ''5'' [] []
     (Some \<lparr>app_appId = 5, app_name = JStr ''sensor'', app_commit = Some ''abc'',
       app_releaseId = JNull, app_image = None, app_imageId = None,
       app_config = JObj [], app_environment = JObj [], app_parentApp = None\<rparr>)
     (Some \<lparr>app_appId = 5, app_name = JStr ''sensor'', app_commit = Some ''abc'',
       app_releaseId = JNull, app_image = None, app_imageId = None,
       app_config = JObj [], app_environment = JObj [], app_parentApp = None\<rparr>)
     [\<lparr>cd_uuid = ''d1'', cd_name = JStr ''one'', cd_lock_expiry_date = JNull,
       cd_markedForDeletion = False,
       cd_apps = [(''5'', \<lparr>as_commit = None, as_config = JObj [], as_environment = JObj [],
         as_targetCommit = Some ''abc'', as_targetEnvironment = JObj [],
         as_targetConfig = JObj []\<rparr>)]\<rparr>]
     [\<lparr>td_uuid = ''d1'', td_name = JStr ''one'',
       td_apps = [(''5'', JObj [(''commit'', JStr ''abc''), (''config'', JObj []),
                               (''environment'', JObj [])])]\<rparr>]
     []
   = Inr []
   \<and> nextStepsForDependentApp
     \<lparr>acknowledgedState = Map.empty, lastRequestForDevice = Map.empty, errorLog = []\<rparr>
     ''5'' [] []
     (Some \<lparr>app_appId = 5, app_name = JStr ''sensor'', app_commit = Some ''abc'',
       app_releaseId = JNull, app_image = None, app_imageId = None,
       app_config = JObj [], app_environment = JObj [], app_parentApp = Some 1\<rparr>)
     (Some \<lparr>app_appId = 5, app_name = JStr ''sensor'', app_commit = Some ''abc'',
       app_releaseId = JNull, app_image = None, app_imageId = None,
       app_config = JObj [], app_environment = JObj [], app_parentApp = Some 1\<rparr>)
     [\<lparr>cd_uuid = ''d1'', cd_name = JStr ''one'', cd_lock_expiry_date = JNull,
       cd_markedForDeletion = False,
       cd_apps = [(''5'', \<lparr>as_commit = None, as_config = JObj [], as_environment = JObj [],
         as_targetCommit = Some ''abc'', as_targetEnvironment = JObj [],
         as_targetConfig = JObj []\<rparr>)]\<rparr>]
     [\<lparr>td_uuid = ''d1'', td_name = JStr ''one'',
       td_apps = [(''5'', JObj [(''commit'', JStr ''abc''), (''config'', JObj []),
                               (''environment'', JObj [])])]\<rparr>]
     [\<lparr>action = ''fetch'', step_appId = Some (IdNumber 1), step_image = None,
       step_devices = None, step_app = None\<rparr>]
   = Inr [noop]
   \<and> nextStepsForDependentApp
     \<lparr>acknowledgedState = Map.empty, lastRequestForDevice = Map.empty, errorLog = []\<rparr>
     ''5'' [] []
     (Some \<lparr>app_appId = 5, app_name = JStr ''sensor'', app_commit = Some ''abc'',
       app_releaseId = JNull, app_image = Some ''img:abc'', app_imageId = Some 7,
       app_config = JObj [], app_environment = JObj [], app_parentApp = None\<rparr>)
     (Some \<lparr>app_appId = 5, app_name = JStr ''sensor'', app_commit = Some ''abc'',
       app_releaseId = JNull, app_image = Some ''img:abc'', app_imageId = Some 7,
       app_config = JObj [], app_environment = JObj [], app_parentApp = None\<rparr>)
     [\<lparr>cd_uuid = ''d1'', cd_name = JStr ''one'', cd_lock_expiry_date = JNull,
       cd_markedForDeletion = False,
       cd_apps = [(''5'', \<lparr>as_commit = None, as_config = JObj [], as_environment = JObj [],
         as_targetCommit = Some ''abc'', as_targetEnvironment = JObj [],
         as_targetConfig = JObj []\<rparr>)]\<rparr>]
     [\<lparr>td_uuid = ''d1'', td_name = JStr ''one'',
       td_apps = [(''5'', JObj [(''commit'', JStr ''abc''), (''config'', JObj []),
                               (''environment'', JObj [])])]\<rparr>]
     []
   = Inr [\<lparr>action = ''fetch'', step_appId = Some (IdKey ''5''),
           step_image = Some \<lparr>img_name = Some ''img:abc'', img_imageId = Some 7,
                               img_appId = 5, img_dependent = True\<rparr>,
           step_devices = None, step_app = None\<rparr>]
   \<and> nextStepsForDependentApp
     \<lparr>acknowledgedState = Map.empty, lastRequestForDevice = Map.empty, errorLog = []\<rparr>
     ''5'' [] [7]
     (Some \<lparr>app_appId = 5, app_name = JStr ''sensor'', app_commit = Some ''abc'',
       app_releaseId = JNull, app_image = Some ''img:abc'', app_imageId = Some 7,
       app_config = JObj [], app_environment = JObj [], app_parentApp = None\<rparr>)
     (Some \<lparr>app_appId = 5, app_name = JStr ''sensor'', app_commit = Some ''abc'',
       app_releaseId = JNull, app_image = Some ''img:abc'', app_imageId = Some 7,
       app_config = JObj [], app_environment = JObj [], app_parentApp = None\<rparr>)
     [\<lparr>cd_uuid = ''d1'', cd_name = JStr ''one'', cd_lock_expiry_date = JNull,
       cd_markedForDeletion = False,
       cd_apps = [(''5'', \<lparr>as_commit = None, as_config = JObj [], as_environment = JObj [],
         as_targetCommit = Some ''abc'', as_targetEnvironment = JObj [],
         as_targetConfig = JObj []\<rparr>)]\<rparr>]
     [\<lparr>td_uuid = ''d1'', td_name = JStr ''one'',
       td_apps = [(''5'', JObj [(''commit'', JStr ''abc''), (''config'', JObj []),
                               (''environment'', JObj [])])]\<rparr>]
     []
   = Inr [noop]"
proof -
  have c: "isEqual_app (Some \<lparr>app_appId = 5, app_name = JStr ''sensor'', app_commit = Some ''abc'',
       app_releaseId = JNull, app_image = None, app_imageId = None,
       app_config = JObj [], app_environment = JObj [], app_parentApp = None\<rparr>) \<lparr>app_appId = 5, app_name = JStr ''sensor'', app_commit = Some ''abc'',
       app_releaseId = JNull, app_image = None, app_imageId = None,
       app_config = JObj [], app_environment = JObj [], app_parentApp = None\<rparr>"
    and b: "isEqual_app (Some \<lparr>app_appId = 5, app_name = JStr ''sensor'', app_commit = Some ''abc'',
       app_releaseId = JNull, app_image = None, app_imageId = None,
       app_config = JObj [], app_environment = JObj [], app_parentApp = Some 1\<rparr>) \<lparr>app_appId = 5, app_name = JStr ''sensor'', app_commit = Some ''abc'',
       app_releaseId = JNull, app_image = None, app_imageId = None,
       app_config = JObj [], app_environment = JObj [], app_parentApp = Some 1\<rparr>"
    and d: "isEqual_app (Some \<lparr>app_appId = 5, app_name = JStr ''sensor'', app_commit = Some ''abc'',
       app_releaseId = JNull, app_image = Some ''img:abc'', app_imageId = Some 7,
       app_config = JObj [], app_environment = JObj [], app_parentApp = None\<rparr>) \<lparr>app_appId = 5, app_name = JStr ''sensor'', app_commit = Some ''abc'',
       app_releaseId = JNull, app_image = Some ''img:abc'', app_imageId = Some 7,
       app_config = JObj [], app_environment = JObj [], app_parentApp = None\<rparr>"
    and dv: "compareDevices [\<lparr>cd_uuid = ''d1'', cd_name = JStr ''one'', cd_lock_expiry_date = JNull,
       cd_markedForDeletion = False,
       cd_apps = [(''5'', \<lparr>as_commit = None, as_config = JObj [], as_environment = JObj [],
         as_targetCommit = Some ''abc'', as_targetEnvironment = JObj [],
         as_targetConfig = JObj []\<rparr>)]\<rparr>] [\<lparr>td_uuid = ''d1'', td_name = JStr ''one'',
       td_apps = [(''5'', JObj [(''commit'', JStr ''abc''), (''config'', JObj []),
                               (''environment'', JObj [])])]\<rparr>] ''5'' = Inr False"
    by (simp_all add: isEqual_app_def compareDevices_def xorWith_def differenceWith_def
        isEqual_device_def jsonOfString_def)
  show ?thesis
    using settled_hook_step [OF c dv, where stepsInProgress = "[]" and availableImages = "[]"
        and this = "\<lparr>acknowledgedState = Map.empty, lastRequestForDevice = Map.empty, errorLog = []\<rparr>" and downloading = "[]"]
      settled_hook_step [OF c dv, where stepsInProgress = "[]" and availableImages = "[]"
        and this = "\<lparr>acknowledgedState = [''d1'' \<mapsto> Target \<lparr>ds_appId = ''5'', ds_commit = Some ''abc'', ds_config = JObj [],
         ds_environment = JObj []\<rparr>],
      lastRequestForDevice = Map.empty, errorLog = []\<rparr>" and downloading = "[]"]
      settled_hook_step [OF b dv, where stepsInProgress = "[\<lparr>action = ''fetch'', step_appId = Some (IdNumber 1), step_image = None,
       step_devices = None, step_app = None\<rparr>]" and availableImages = "[]"
        and this = "\<lparr>acknowledgedState = Map.empty, lastRequestForDevice = Map.empty, errorLog = []\<rparr>" and downloading = "[]"]
      settled_hook_step [OF d dv, where stepsInProgress = "[]" and availableImages = "[]"
        and this = "\<lparr>acknowledgedState = Map.empty, lastRequestForDevice = Map.empty, errorLog = []\<rparr>" and downloading = "[]"]
      settled_hook_step [OF d dv, where stepsInProgress = "[]" and availableImages = "[]"
        and this = "\<lparr>acknowledgedState = Map.empty, lastRequestForDevice = Map.empty, errorLog = []\<rparr>" and downloading = "[7]"]
    by (simp add: nextStepsForDependentApp_def targetsParent_def compareDevices_def xorWith_def
      differenceWith_def isEqual_device_def jsonOfString_def isEqual_app_def getHookStep_def
      targetStateOf_def currentStateOf_def isEqual_state_def isEqual_ack_def noop_def
      imageAvailable_def imageForDependentApp_def)
qed

lemma getHookStep_ack_cong:
  "\<forall>d\<in>set devs. acknowledgedState this (cd_uuid d) = acknowledgedState that (cd_uuid d) \<Longrightarrow>
   getHookStep this devs appId = getHookStep that devs appId"
  by (simp add: getHookStep_def hookDevices_ack_cong [of devs this that])

lemma nextSteps_ack_cong:
  assumes "\<forall>d\<in>set devs. acknowledgedState this (cd_uuid d) = acknowledgedState that (cd_uuid d)"
  shows "nextStepsForDependentApp this appId availableImages downloading current target devs
     targetDevices stepsInProgress
   = nextStepsForDependentApp that appId availableImages downloading current target devs
     targetDevices stepsInProgress"
  unfolding nextStepsForDependentApp_def getHookStep_ack_cong [OF assms] by (rule refl)

lemma stepsForApps_ack_cong:
  assumes "\<forall>d\<in>set (case current of None \<Rightarrow> []
                      | Some c \<Rightarrow> (case cur_devices c of None \<Rightarrow> [] | Some ds \<Rightarrow> ds)).
             acknowledgedState this (cd_uuid d) = acknowledgedState that (cd_uuid d)"
  shows "stepsForApps this availableImages downloading current target stepsInProgress appIds steps
       = stepsForApps that availableImages downloading current target stepsInProgress appIds steps"
proof (induction appIds arbitrary: steps)
  case Nil
  then show ?case by simp
next
  case (Cons appId rest)
  show ?case
  proof (cases current)
    case None
    then show ?thesis by simp
  next
    case (Some cur)
    have "\<forall>d\<in>set (filter (\<lambda>d. has (cd_apps d) appId)
                      (case cur_devices cur of None \<Rightarrow> [] | Some ds \<Rightarrow> ds)).
            acknowledgedState this (cd_uuid d) = acknowledgedState that (cd_uuid d)"
      using assms Some by simp
    from nextSteps_ack_cong [OF this]
    have eq: "\<And>a b c d e f.
        nextStepsForDependentApp this appId a b c d
          (filter (\<lambda>d. has (cd_apps d) appId)
             (case cur_devices cur of None \<Rightarrow> [] | Some ds \<Rightarrow> ds)) e f
        = nextStepsForDependentApp that appId a b c d
          (filter (\<lambda>d. has (cd_apps d) appId)
             (case cur_devices cur of None \<Rightarrow> [] | Some ds \<Rightarrow> ds)) e f"
      by blast
    show ?thesis
    proof (cases target)
      case None
      then show ?thesis using Some by simp
    next
      case (Some tgt)
      then show ?thesis
        using \<open>current = Some cur\<close> Cons.IH
        by (simp add: Let_def eq split: sum.splits)
    qed
  qed
qed

text \<open>
  C3, as stated, fails: the same five arguments give a \<open>sendDependentHooks\<close> step when
  nothing is acknowledged for device \<open>d1\<close>, and no step when its target state is.
\<close>

theorem getRequiredSteps_reads_acknowledged:
  "getRequiredSteps
     \<lparr>acknowledgedState = Map.empty, lastRequestForDevice = Map.empty, errorLog = []\<rparr>
     [] []
     (Some \<lparr>cur_apps = Some [\<lparr>app_appId = 5, app_name = JStr ''sensor'', app_commit = Some ''abc'',
              app_releaseId = JNull, app_image = None, app_imageId = None,
              app_config = JObj [], app_environment = JObj [], app_parentApp = None\<rparr>],
            cur_devices = Some [\<lparr>cd_uuid = ''d1'', cd_name = JStr ''one'', cd_lock_expiry_date = JNull,
              cd_markedForDeletion = False,
              cd_apps = [(''5'', \<lparr>as_commit = None, as_config = JObj [],
                                   as_environment = JObj [], as_targetCommit = Some ''abc'',
                                   as_targetEnvironment = JObj [],
                                   as_targetConfig = JObj []\<rparr>)]\<rparr>]\<rparr>)
     (Some \<lparr>tgt_apps = Some [\<lparr>app_appId = 5, app_name = JStr ''sensor'', app_commit = Some ''abc'',
              app_releaseId = JNull, app_image = None, app_imageId = None,
              app_config = JObj [], app_environment = JObj [], app_parentApp = None\<rparr>],
            tgt_devices = Some [\<lparr>td_uuid = ''d1'', td_name = JStr ''one'',
              td_apps = [(''5'', JObj [(''commit'', JStr ''abc''), (''config'', JObj []),
                                      (''environment'', JObj [])])]\<rparr>]\<rparr>)
     []
   \<noteq> getRequiredSteps
     \<lparr>acknowledgedState = [''d1'' \<mapsto> Target \<lparr>ds_appId = ''5'', ds_commit = Some ''abc'', ds_config = JObj [],
                  ds_environment = JObj []\<rparr>],
      lastRequestForDevice = Map.empty, errorLog = []\<rparr>
     [] []
     (Some \<lparr>cur_apps = Some [\<lparr>app_appId = 5, app_name = JStr ''sensor'', app_commit = Some ''abc'',
              app_releaseId = JNull, app_image = None, app_imageId = None,
              app_config = JObj [], app_environment = JObj [], app_parentApp = None\<rparr>],
            cur_devices = Some [\<lparr>cd_uuid = ''d1'', cd_name = JStr ''one'', cd_lock_expiry_date = JNull,
              cd_markedForDeletion = False,
              cd_apps = [(''5'', \<lparr>as_commit = None, as_config = JObj [],
                                   as_environment = JObj [], as_targetCommit = Some ''abc'',
                                   as_targetEnvironment = JObj [],
                                   as_targetConfig = JObj []\<rparr>)]\<rparr>]\<rparr>)
     (Some \<lparr>tgt_apps = Some [\<lparr>app_appId = 5, app_name = JStr ''sensor'', app_commit = Some ''abc'',
              app_releaseId = JNull, app_image = None, app_imageId = None,
              app_config = JObj [], app_environment = JObj [], app_parentApp = None\<rparr>],
            tgt_devices = Some [\<lparr>td_uuid = ''d1'', td_name = JStr ''one'',
              td_apps = [(''5'', JObj [(''commit'', JStr ''abc''), (''config'', JObj []),
                                      (''environment'', JObj [])])]\<rparr>]\<rparr>)
     []"
  by (simp add: getRequiredSteps_def nextStepsForDependentApp_def targetsParent_def Let_def
      compareDevices_def xorWith_def differenceWith_def isEqual_device_def jsonOfString_def
      isEqual_app_def getHookStep_def targetStateOf_def currentStateOf_def isEqual_state_def
      isEqual_ack_def keyBy_def dependentApps_def js_keys_def js_entries_def arrayIndex_def
      indexOrZero_def String_def decimal.simps digit_def digit_val_def union_js_def has_def)

text \<open>
  C3, amended: the step list is a function of the five arguments and of the entries of
  the acknowledged-state map for the uuids of the current devices. Two proxyvisor
  states whose maps agree on those uuids give the same result, the same steps in the
  same order or the same error, for equal arguments; nothing else of the proxyvisor's
  state matters.
\<close>

theorem getRequiredSteps_depends_on_acknowledged:
  assumes "\<forall>d\<in>set (case current of None \<Rightarrow> []
                      | Some c \<Rightarrow> (case cur_devices c of None \<Rightarrow> [] | Some ds \<Rightarrow> ds)).
             acknowledgedState this (cd_uuid d) = acknowledgedState that (cd_uuid d)"
  shows "getRequiredSteps this availableImages downloading current target stepsInProgress
       = getRequiredSteps that availableImages downloading current target stepsInProgress"
  using stepsForApps_ack_cong [OF assms] by (simp add: getRequiredSteps_def Let_def)

theorem getRequiredSteps_depends_on_acknowledged_witness:
  "getRequiredSteps
     \<lparr>acknowledgedState = [''d1'' \<mapsto> Target \<lparr>ds_appId = ''5'', ds_commit = Some ''abc'', ds_config = JObj [],
                  ds_environment = JObj []\<rparr>],
      lastRequestForDevice = Map.empty, errorLog = []\<rparr>
     [] []
     (Some \<lparr>cur_apps = Some [\<lparr>app_appId = 5, app_name = JStr ''sensor'', app_commit = Some ''abc'',
              app_releaseId = JNull, app_image = None, app_imageId = None,
              app_config = JObj [], app_environment = JObj [], app_parentApp = None\<rparr>],
            cur_devices = Some [\<lparr>cd_uuid = ''d1'', cd_name = JStr ''one'', cd_lock_expiry_date = JNull,
              cd_markedForDeletion = False,
              cd_apps = [(''5'', \<lparr>as_commit = None, as_config = JObj [],
                                   as_environment = JObj [], as_targetCommit = Some ''abc'',
                                   as_targetEnvironment = JObj [],
                                   as_targetConfig = JObj []\<rparr>)]\<rparr>]\<rparr>)
     (Some \<lparr>tgt_apps = Some [\<lparr>app_appId = 5, app_name = JStr ''sensor'', app_commit = Some ''abc'',
              app_releaseId = JNull, app_image = None, app_imageId = None,
              app_config = JObj [], app_environment = JObj [], app_parentApp = None\<rparr>],
            tgt_devices = Some [\<lparr>td_uuid = ''d1'', td_name = JStr ''one'',
              td_apps = [(''5'', JObj [(''commit'', JStr ''abc''), (''config'', JObj []),
                                      (''environment'', JObj [])])]\<rparr>]\<rparr>)
     []
   = getRequiredSteps
     \<lparr>acknowledgedState = [''d1'' \<mapsto> Target \<lparr>ds_appId = ''5'', ds_commit = Some ''abc'', ds_config = JObj [],
                  ds_environment = JObj []\<rparr>, ''d9'' \<mapsto> Null],
      lastRequestForDevice = [''d1'' \<mapsto> 1000], errorLog = [''Error updating device d9'']\<rparr>
     [] []
     (Some \<lparr>cur_apps = Some [\<lparr>app_appId = 5, app_name = JStr ''sensor'', app_commit = Some ''abc'',
              app_releaseId = JNull, app_image = None, app_imageId = None,
              app_config = JObj [], app_environment = JObj [], app_parentApp = None\<rparr>],
            cur_devices = Some [\<lparr>cd_uuid = ''d1'', cd_name = JStr ''one'', cd_lock_expiry_date = JNull,
              cd_markedForDeletion = False,
              cd_apps = [(''5'', \<lparr>as_commit = None, as_config = JObj [],
                                   as_environment = JObj [], as_targetCommit = Some ''abc'',
                                   as_targetEnvironment = JObj [],
                                   as_targetConfig = JObj []\<rparr>)]\<rparr>]\<rparr>)
     (Some \<lparr>tgt_apps = Some [\<lparr>app_appId = 5, app_name = JStr ''sensor'', app_commit = Some ''abc'',
              app_releaseId = JNull, app_image = None, app_imageId = None,
              app_config = JObj [], app_environment = JObj [], app_parentApp = None\<rparr>],
            tgt_devices = Some [\<lparr>td_uuid = ''d1'', td_name = JStr ''one'',
              td_apps = [(''5'', JObj [(''commit'', JStr ''abc''), (''config'', JObj []),
                                      (''environment'', JObj [])])]\<rparr>]\<rparr>)
     []"
  using getRequiredSteps_depends_on_acknowledged
    [of "(Some \<lparr>cur_apps = Some [\<lparr>app_appId = 5, app_name = JStr ''sensor'', app_commit = Some ''abc'',
              app_releaseId = JNull, app_image = None, app_imageId = None,
              app_config = JObj [], app_environment = JObj [], app_parentApp = None\<rparr>],
            cur_devices = Some [\<lparr>cd_uuid = ''d1'', cd_name = JStr ''one'', cd_lock_expiry_date = JNull,
              cd_markedForDeletion = False,
              cd_apps = [(''5'', \<lparr>as_commit = None, as_config = JObj [],
                                   as_environment = JObj [], as_targetCommit = Some ''abc'',
                                   as_targetEnvironment = JObj [],
                                   as_targetConfig = JObj []\<rparr>)]\<rparr>]\<rparr>)"
        "\<lparr>acknowledgedState = [''d1'' \<mapsto> Target \<lparr>ds_appId = ''5'', ds_commit = Some ''abc'', ds_config = JObj [],
                  ds_environment = JObj []\<rparr>],
      lastRequestForDevice = Map.empty, errorLog = []\<rparr>"
        "\<lparr>acknowledgedState = [''d1'' \<mapsto> Target \<lparr>ds_appId = ''5'', ds_commit = Some ''abc'', ds_config = JObj [],
                  ds_environment = JObj []\<rparr>, ''d9'' \<mapsto> Null],
      lastRequestForDevice = [''d1'' \<mapsto> 1000], errorLog = [''Error updating device d9'']\<rparr>"
        "[]" "[]"
        "(Some \<lparr>tgt_apps = Some [\<lparr>app_appId = 5, app_name = JStr ''sensor'', app_commit = Some ''abc'',
              app_releaseId = JNull, app_image = None, app_imageId = None,
              app_config = JObj [], app_environment = JObj [], app_parentApp = None\<rparr>],
            tgt_devices = Some [\<lparr>td_uuid = ''d1'', td_name = JStr ''one'',
              td_apps = [(''5'', JObj [(''commit'', JStr ''abc''), (''config'', JObj []),
                                      (''environment'', JObj [])])]\<rparr>]\<rparr>)"
        "[]"]
  by simp

subsection \<open>Storing the target\<close>

text \<open>
  C9: when the desired state has no \<open>apps\<close> (the field, or the whole object, is null or
  absent), \<open>setTargetInTransaction\<close> leaves the rows of the target-app table as they
  are, whether it ends in an error or not; and when it has no \<open>devices\<close>, the rows of the
  target-device table.
\<close>

theorem setTarget_frame:
  "((case dep of None \<Rightarrow> None | Some d \<Rightarrow> des_apps d) = None \<longrightarrow>
      dependentAppTarget (fst (setTargetInTransaction checkInt normalise dep db))
      = dependentAppTarget db)
   \<and> ((case dep of None \<Rightarrow> None | Some d \<Rightarrow> des_devices d) = None \<longrightarrow>
      dependentDeviceTarget (fst (setTargetInTransaction checkInt normalise dep db))
      = dependentDeviceTarget db)"
  by (auto simp add: setTargetInTransaction_def Let_def split: option.splits sum.splits prod.splits)

theorem setTarget_frame_witness:
  "dependentAppTarget
     (fst (setTargetInTransaction (\<lambda>k. Some 5) Some
            (Some \<lparr>des_apps = None, des_devices = Some []\<rparr>)
            \<lparr>dependentAppTarget =
               [\<lparr>app_appId = 5, app_name = JStr ''sensor'', app_commit = Some ''abc'',
                 app_releaseId = JNum 1, app_image = Some ''img:abc'', app_imageId = Some 7,
                 app_config = JObj [], app_environment = JObj [], app_parentApp = Some 1\<rparr>],
              dependentDeviceTarget =
               [\<lparr>td_uuid = ''d1'', td_name = JStr ''one'', td_apps = []\<rparr>]\<rparr>))
   = [\<lparr>app_appId = 5, app_name = JStr ''sensor'', app_commit = Some ''abc'',
       app_releaseId = JNum 1, app_image = Some ''img:abc'', app_imageId = Some 7,
       app_config = JObj [], app_environment = JObj [], app_parentApp = Some 1\<rparr>]
   \<and> dependentDeviceTarget
     (fst (setTargetInTransaction (\<lambda>k. Some 5) Some
            (Some \<lparr>des_apps = Some [], des_devices = None\<rparr>)
            \<lparr>dependentAppTarget =
               [\<lparr>app_appId = 5, app_name = JStr ''sensor'', app_commit = Some ''abc'',
                 app_releaseId = JNum 1, app_image = Some ''img:abc'', app_imageId = Some 7,
                 app_config = JObj [], app_environment = JObj [], app_parentApp = Some 1\<rparr>],
              dependentDeviceTarget =
               [\<lparr>td_uuid = ''d1'', td_name = JStr ''one'', td_apps = []\<rparr>]\<rparr>))
   = [\<lparr>td_uuid = ''d1'', td_name = JStr ''one'', td_apps = []\<rparr>]"
  using setTarget_frame
    [of "Some \<lparr>des_apps = None, des_devices = Some []\<rparr>" "\<lambda>k. Some 5" Some
        "\<lparr>dependentAppTarget =
               [\<lparr>app_appId = 5, app_name = JStr ''sensor'', app_commit = Some ''abc'',
                 app_releaseId = JNum 1, app_image = Some ''img:abc'', app_imageId = Some 7,
                 app_config = JObj [], app_environment = JObj [], app_parentApp = Some 1\<rparr>],
              dependentDeviceTarget =
               [\<lparr>td_uuid = ''d1'', td_name = JStr ''one'', td_apps = []\<rparr>]\<rparr>"]
     setTarget_frame
    [of "Some \<lparr>des_apps = Some [], des_devices = None\<rparr>" "\<lambda>k. Some 5" Some
        "\<lparr>dependentAppTarget =
               [\<lparr>app_appId = 5, app_name = JStr ''sensor'', app_commit = Some ''abc'',
                 app_releaseId = JNum 1, app_image = Some ''img:abc'', app_imageId = Some 7,
                 app_config = JObj [], app_environment = JObj [], app_parentApp = Some 1\<rparr>],
              dependentDeviceTarget =
               [\<lparr>td_uuid = ''d1'', td_name = JStr ''one'', td_apps = []\<rparr>]\<rparr>"]
  by simp

subsection \<open>Hook delivery\<close>

text \<open>
  C10: when the hook answers, \<open>sendUpdate\<close> records the delivered target as acknowledged
  for the device's uuid if the status is 200, and \<open>null\<close> for every other status; 200
  and 202 log no error; no other uuid's entry changes. After an answer other than 200,
  202 included, whatever was acknowledged before is gone: a current device of that uuid
  that is not marked for deletion, has a target commit and a target state different from
  its current state gets its hook entry on the next pass.
\<close>

theorem sendUpdate_acknowledges:
  "(statusCode = 200 \<longrightarrow>
      acknowledgedState (sendUpdate device (Answer statusCode msg) this) (hd_uuid device)
      = map_option Target (hd_target device))
   \<and> (statusCode \<noteq> 200 \<longrightarrow>
      acknowledgedState (sendUpdate device (Answer statusCode msg) this) (hd_uuid device)
      = Some Null)
   \<and> (statusCode = 200 \<or> statusCode = 202 \<longrightarrow>
      errorLog (sendUpdate device (Answer statusCode msg) this) = errorLog this)
   \<and> (u \<noteq> hd_uuid device \<longrightarrow>
      acknowledgedState (sendUpdate device (Answer statusCode msg) this) u
      = acknowledgedState this u)
   \<and> (statusCode \<noteq> 200 \<and> cd_uuid d = hd_uuid device \<and> \<not> cd_markedForDeletion d
       \<and> map_of (cd_apps d) appId = Some a \<and> as_targetCommit a \<noteq> None
       \<and> \<not> isEqual_state (targetStateOf appId a) (currentStateOf appId a) \<longrightarrow>
      hookDevices (sendUpdate device (Answer statusCode msg) this) appId [d] []
      = Inr [\<lparr>hd_uuid = cd_uuid d, hd_target = Some (targetStateOf appId a),
              hd_markedForDeletion = False\<rparr>])"
  by (auto simp add: sendUpdate_def Let_def isEqual_ack_def)

theorem sendUpdate_acknowledges_witness:
  "acknowledgedState
     (sendUpdate
        \<lparr>hd_uuid = ''d1'',
         hd_target = Some \<lparr>ds_appId = ''5'', ds_commit = Some ''abc'', ds_config = JObj [],
                            ds_environment = JObj []\<rparr>,
         hd_markedForDeletion = False\<rparr>
        (Answer 200 ''OK'')
        \<lparr>acknowledgedState = Map.empty, lastRequestForDevice = Map.empty, errorLog = []\<rparr>)
     ''d1''
   = Some (Target \<lparr>ds_appId = ''5'', ds_commit = Some ''abc'', ds_config = JObj [],
                     ds_environment = JObj []\<rparr>)
   \<and> acknowledgedState
     (sendUpdate
        \<lparr>hd_uuid = ''d1'',
         hd_target = Some \<lparr>ds_appId = ''5'', ds_commit = Some ''abc'', ds_config = JObj [],
                            ds_environment = JObj []\<rparr>,
         hd_markedForDeletion = False\<rparr>
        (Answer 202 ''Accepted'')
        \<lparr>acknowledgedState =
           [''d1'' \<mapsto> Target \<lparr>ds_appId = ''5'', ds_commit = Some ''abc'', ds_config = JObj [],
                                 ds_environment = JObj []\<rparr>,
            ''d2'' \<mapsto> Null],
         lastRequestForDevice = Map.empty, errorLog = []\<rparr>)
     ''d1''
   = Some Null
   \<and> acknowledgedState
     (sendUpdate
        \<lparr>hd_uuid = ''d1'',
         hd_target = Some \<lparr>ds_appId = ''5'', ds_commit = Some ''abc'', ds_config = JObj [],
                            ds_environment = JObj []\<rparr>,
         hd_markedForDeletion = False\<rparr>
        (Answer 202 ''Accepted'')
        \<lparr>acknowledgedState =
           [''d1'' \<mapsto> Target \<lparr>ds_appId = ''5'', ds_commit = Some ''abc'', ds_config = JObj [],
                                 ds_environment = JObj []\<rparr>,
            ''d2'' \<mapsto> Null],
         lastRequestForDevice = Map.empty, errorLog = []\<rparr>)
     ''d2''
   = Some Null
   \<and> hookDevices
     (sendUpdate
        \<lparr>hd_uuid = ''d1'',
         hd_target = Some \<lparr>ds_appId = ''5'', ds_commit = Some ''abc'', ds_config = JObj [],
                            ds_environment = JObj []\<rparr>,
         hd_markedForDeletion = False\<rparr>
        (Answer 202 ''Accepted'')
        \<lparr>acknowledgedState =
           [''d1'' \<mapsto> Target \<lparr>ds_appId = ''5'', ds_commit = Some ''abc'', ds_config = JObj [],
                                 ds_environment = JObj []\<rparr>,
            ''d2'' \<mapsto> Null],
         lastRequestForDevice = Map.empty, errorLog = []\<rparr>)
     ''5''
     [\<lparr>cd_uuid = ''d1'', cd_name = JStr ''one'', cd_lock_expiry_date = JNull,
       cd_markedForDeletion = False,
       cd_apps = [(''5'', \<lparr>as_commit = None, as_config = JObj [], as_environment = JObj [],
                            as_targetCommit = Some ''abc'', as_targetEnvironment = JObj [],
                            as_targetConfig = JObj []\<rparr>)]\<rparr>]
     []
   = Inr [\<lparr>hd_uuid = ''d1'',
           hd_target = Some \<lparr>ds_appId = ''5'', ds_commit = Some ''abc'', ds_config = JObj [],
                              ds_environment = JObj []\<rparr>,
           hd_markedForDeletion = False\<rparr>]"
  using sendUpdate_acknowledges
    [of 200
        "\<lparr>hd_uuid = ''d1'',
         hd_target = Some \<lparr>ds_appId = ''5'', ds_commit = Some ''abc'', ds_config = JObj [],
                            ds_environment = JObj []\<rparr>,
         hd_markedForDeletion = False\<rparr>"
        "''OK''"
        "\<lparr>acknowledgedState = Map.empty, lastRequestForDevice = Map.empty, errorLog = []\<rparr>"]
    sendUpdate_acknowledges
    [of 202
        "\<lparr>hd_uuid = ''d1'',
         hd_target = Some \<lparr>ds_appId = ''5'', ds_commit = Some ''abc'', ds_config = JObj [],
                            ds_environment = JObj []\<rparr>,
         hd_markedForDeletion = False\<rparr>"
        "''Accepted''"
        "\<lparr>acknowledgedState =
           [''d1'' \<mapsto> Target \<lparr>ds_appId = ''5'', ds_commit = Some ''abc'', ds_config = JObj [],
                                 ds_environment = JObj []\<rparr>,
            ''d2'' \<mapsto> Null],
         lastRequestForDevice = Map.empty, errorLog = []\<rparr>"
        "''d2''"
        "\<lparr>cd_uuid = ''d1'', cd_name = JStr ''one'', cd_lock_expiry_date = JNull,
       cd_markedForDeletion = False,
       cd_apps = [(''5'', \<lparr>as_commit = None, as_config = JObj [], as_environment = JObj [],
                            as_targetCommit = Some ''abc'', as_targetEnvironment = JObj [],
                            as_targetConfig = JObj []\<rparr>)]\<rparr>"
        "''5''"
        "\<lparr>as_commit = None, as_config = JObj [], as_environment = JObj [],
                            as_targetCommit = Some ''abc'', as_targetEnvironment = JObj [],
                            as_targetConfig = JObj []\<rparr>"]
  by (simp add: targetStateOf_def currentStateOf_def isEqual_state_def del: hookDevices.simps)

subsection \<open>Cached tarballs\<close>

text \<open>
  C8 does not hold of \<open>cleanupTars\<close>: with the tarball of the current commit \<open>abc\<close> and
  one of an older commit in the directory of app 5, both are unlinked. The string
  \<open>5-abc.tar\<close> is taken for a property path, no file name has a property \<open>5-abc\<close>, so
  \<open>_.reject\<close> rejects nothing.
\<close>

theorem cleanupTars_unlinks_current:
  "cleanupTars deep 5 (Some ''abc'')
     [''/data/dependent-assets/5'' \<mapsto> [''5-abc.tar'', ''5-old.tar'']]
   = ([''/data/dependent-assets/5/5-abc.tar'', ''/data/dependent-assets/5/5-old.tar''],
      [''/data/dependent-assets/5'' \<mapsto> []])"
  by (simp add: cleanupTars_def tarFilename_def tarDirectory_def String_def decimal.simps
      digit_def reject_def propertyTruthy_def firstKey_def identifierChar_def)

text \<open>
  The same happens for every app id, commit and directory: the first key of the path
  \<open>{appId}-{commit}.tar\<close> contains the hyphen, which no property name of a string
  has, so nothing is rejected and \<open>cleanupTars\<close> unlinks every entry, with a commit as
  without.
\<close>

lemma digit_in: "n < 10 \<Longrightarrow> digit n \<in> set ''0123456789''"
proof -
  assume "n < 10"
  then have "nat n < length ''0123456789''" by simp
  then show ?thesis unfolding digit_def by (rule nth_mem)
qed

lemma decimal_digits: "set (decimal n) \<subseteq> set ''0123456789''"
proof (induction n rule: decimal.induct)
  case (1 n)
  show ?case
  proof (cases "n < 10")
    case True
    then show ?thesis using digit_in [of n] by (subst decimal.simps) simp
  next
    case False
    have "n mod 10 < 10" by simp
    then have "digit (n mod 10) \<in> set ''0123456789''" by (rule digit_in)
    then show ?thesis using False "1.IH" by (subst decimal.simps) simp
  qed
qed

lemma firstKey_tarFilename: "CHR ''-'' \<in> set (firstKey (tarFilename appId commit))"
proof -
  have "\<forall>c\<in>set (String appId). c \<notin> set ''.[]''"
    using decimal_digits [of appId] decimal_digits [of "- appId"]
    by (auto simp: String_def)
  then have "firstKey (tarFilename appId commit)
      = String appId @ takeWhile (\<lambda>c. c \<notin> set ''.[]'') (''-'' @ commit @ ''.tar'')"
    unfolding firstKey_def tarFilename_def by (subst takeWhile_append2) auto
  then show ?thesis by simp
qed

lemma reject_tarFilename: "reject deep files (tarFilename appId commit) = files"
proof -
  have "\<not> identifierChar CHR ''-''" by (simp add: identifierChar_def)
  then have "\<not> list_all identifierChar (firstKey (tarFilename appId commit))"
    using firstKey_tarFilename [of appId commit] by (auto simp: list_all_iff)
  then show ?thesis by (simp add: reject_def propertyTruthy_def)
qed

lemma cleanupTars_unlinks_all:
  "cleanupTars deep appId commit fs
   = (map (\<lambda>file. tarDirectory appId @ ''/'' @ file)
        (case fs (tarDirectory appId) of None \<Rightarrow> [] | Some entries \<Rightarrow> entries),
      case fs (tarDirectory appId) of
        None \<Rightarrow> fs
      | Some entries \<Rightarrow> fs(tarDirectory appId \<mapsto> []))"
  by (cases commit)
    (simp_all add: cleanupTars_def reject_tarFilename Let_def split: option.splits)

subsection \<open>The target state\<close>

lemma subset_widen: "A \<subseteq> {a..<b} \<Longrightarrow> a' \<le> a \<Longrightarrow> b \<le> b' \<Longrightarrow> A \<subseteq> {a'..<b'::nat}"
  by auto

lemma parse_spec:
  "parse n j = (v, n') \<Longrightarrow> n \<le> n' \<and> addresses v \<subseteq> {n..<n'} \<and> erase v = j"
  "parse_list n js = (vs, n') \<Longrightarrow>
     n \<le> n' \<and> (\<forall>v\<in>set vs. addresses v \<subseteq> {n..<n'}) \<and> map erase vs = js"
  "parse_fields n fs = (ws, n') \<Longrightarrow>
     n \<le> n' \<and> (\<forall>v\<in>snd ` set ws. addresses v \<subseteq> {n..<n'})
     \<and> map (\<lambda>(k, v). (k, erase v)) ws = fs"
proof (induction n j and n js and n fs arbitrary: v n' and vs n' and ws n'
    rule: parse_parse_list_parse_fields.induct)
  case (5 n xs)
  then show ?case by (fastforce split: prod.splits)
next
  case (6 n fs)
  then show ?case by (fastforce split: prod.splits)
next
  case (8 n x xs)
  obtain v1 n1 where p1: "parse n x = (v1, n1)" by (cases "parse n x")
  obtain vs1 n2 where p2: "parse_list n1 xs = (vs1, n2)" by (cases "parse_list n1 xs")
  from "8.prems" p1 p2 have r: "vs = v1 # vs1" "n' = n2" by auto
  from "8.IH"(1) [OF p1] have a: "n \<le> n1" "addresses v1 \<subseteq> {n..<n1}" "erase v1 = x" by auto
  from "8.IH"(2) [OF p1 [symmetric] refl p2]
  have b: "n1 \<le> n2" "\<forall>v\<in>set vs1. addresses v \<subseteq> {n1..<n2}" "map erase vs1 = xs" by auto
  have "addresses v1 \<subseteq> {n..<n2}" using a(2) b(1) by (rule subset_widen [OF _ le_refl])
  moreover have "\<forall>v\<in>set vs1. addresses v \<subseteq> {n..<n2}"
    using b(2) a(1) by (fastforce simp: subset_iff)
  ultimately show ?case using r a b by simp
next
  case (10 n k x fs)
  obtain v1 n1 where p1: "parse n x = (v1, n1)" by (cases "parse n x")
  obtain ws1 n2 where p2: "parse_fields n1 fs = (ws1, n2)" by (cases "parse_fields n1 fs")
  from "10.prems" p1 p2 have r: "ws = (k, v1) # ws1" "n' = n2" by auto
  from "10.IH"(1) [OF p1] have a: "n \<le> n1" "addresses v1 \<subseteq> {n..<n1}" "erase v1 = x" by auto
  from "10.IH"(2) [OF p1 [symmetric] refl p2]
  have b: "n1 \<le> n2" "\<forall>v\<in>snd ` set ws1. addresses v \<subseteq> {n1..<n2}"
    "map (\<lambda>(k, v). (k, erase v)) ws1 = fs" by auto
  have "addresses v1 \<subseteq> {n..<n2}" using a(2) b(1) by (rule subset_widen [OF _ le_refl])
  moreover have "\<forall>v\<in>snd ` set ws1. addresses v \<subseteq> {n..<n2}"
    using b(2) a(1) by (fastforce simp: subset_iff)
  ultimately show ?case using r a b by simp
qed auto

lemma cloneDeep_spec:
  "cloneDeep n v = (w, n') \<Longrightarrow> n \<le> n' \<and> addresses w \<subseteq> {n..<n'} \<and> erase w = erase v"
  "cloneDeep_list n vs = (ws, n') \<Longrightarrow>
     n \<le> n' \<and> (\<forall>w\<in>set ws. addresses w \<subseteq> {n..<n'}) \<and> map erase ws = map erase vs"
  "cloneDeep_fields n fs = (gs, n') \<Longrightarrow>
     n \<le> n' \<and> (\<forall>w\<in>snd ` set gs. addresses w \<subseteq> {n..<n'})
     \<and> map (\<lambda>(k, v). (k, erase v)) gs = map (\<lambda>(k, v). (k, erase v)) fs"
proof (induction n v and n vs and n fs arbitrary: w n' and ws n' and gs n'
    rule: cloneDeep_cloneDeep_list_cloneDeep_fields.induct)
  case (1 n a xs)
  then show ?case by (fastforce split: prod.splits)
next
  case (2 n a fs)
  then show ?case by (fastforce split: prod.splits)
next
  case (5 n x xs)
  obtain v1 n1 where p1: "cloneDeep n x = (v1, n1)" by (cases "cloneDeep n x")
  obtain vs1 n2 where p2: "cloneDeep_list n1 xs = (vs1, n2)" by (cases "cloneDeep_list n1 xs")
  from "5.prems" p1 p2 have r: "ws = v1 # vs1" "n' = n2" by auto
  from "5.IH"(1) [OF p1]
  have a: "n \<le> n1" "addresses v1 \<subseteq> {n..<n1}" "erase v1 = erase x" by auto
  from "5.IH"(2) [OF p1 [symmetric] refl p2]
  have b: "n1 \<le> n2" "\<forall>v\<in>set vs1. addresses v \<subseteq> {n1..<n2}" "map erase vs1 = map erase xs"
    by auto
  have "addresses v1 \<subseteq> {n..<n2}" using a(2) b(1) by (rule subset_widen [OF _ le_refl])
  moreover have "\<forall>v\<in>set vs1. addresses v \<subseteq> {n..<n2}"
    using b(2) a(1) by (fastforce simp: subset_iff)
  ultimately show ?case using r a b by simp
next
  case (7 n k x fs)
  obtain v1 n1 where p1: "cloneDeep n x = (v1, n1)" by (cases "cloneDeep n x")
  obtain ws1 n2 where p2: "cloneDeep_fields n1 fs = (ws1, n2)"
    by (cases "cloneDeep_fields n1 fs")
  from "7.prems" p1 p2 have r: "gs = (k, v1) # ws1" "n' = n2" by auto
  from "7.IH"(1) [OF p1]
  have a: "n \<le> n1" "addresses v1 \<subseteq> {n..<n1}" "erase v1 = erase x" by auto
  from "7.IH"(2) [OF p1 [symmetric] refl p2]
  have b: "n1 \<le> n2" "\<forall>v\<in>snd ` set ws1. addresses v \<subseteq> {n1..<n2}"
    "map (\<lambda>(k, v). (k, erase v)) ws1 = map (\<lambda>(k, v). (k, erase v)) fs" by auto
  have "addresses v1 \<subseteq> {n..<n2}" using a(2) b(1) by (rule subset_widen [OF _ le_refl])
  moreover have "\<forall>v\<in>snd ` set ws1. addresses v \<subseteq> {n..<n2}"
    using b(2) a(1) by (fastforce simp: subset_iff)
  ultimately show ?case using r a b by simp
qed auto

text \<open>
  C2: when the remote answers 200 in time, \<open>update\<close> replaces the cache by the parsed
  body of the response with the \<open>etag\<close> of its headers, and appends exactly one event
  to those emitted, carrying the \<open>force\<close> and \<open>isFromApi\<close> it was called with and a
  value that stands for the same document as the new cached body and shares no address
  with it.
\<close>

theorem update_replaces_cache_and_emits_once:
  assumes "getMany env = Some cfg"
    and "apiEndpoint cfg = Some base"
    and "remote env
           \<lparr>req_endpoint = (base, ''/device/v2/'' @ uuid cfg @ ''/state''),
            req_options = \<lparr>opt_json = True, opt_headers = None\<rparr>\<rparr>
         = Reply 200 headers document elapsed"
    and "elapsed < apiTimeout cfg"
  shows "\<exists>b copy free.
      update env force isFromApi st
      = (st\<lparr>cache := Some \<lparr>etag = map_of headers ''etag'', body = b\<rparr>,
            emitted := emitted st @ [(copy, force, isFromApi)],
            lastFetch := Some (hrtime env),
            heapTop := free\<rparr>,
         None)
      \<and> erase b = document \<and> erase copy = document
      \<and> addresses copy \<inter> addresses b = {}"
proof -
  obtain b top where p: "parse (heapTop st) document = (b, top)"
    by (cases "parse (heapTop st) document")
  obtain copy top' where c: "cloneDeep top b = (copy, top')"
    by (cases "cloneDeep top b")
  from parse_spec(1) [OF p]
  have pb: "addresses b \<subseteq> {heapTop st..<top}" "erase b = document" by auto
  from cloneDeep_spec(1) [OF c]
  have cb: "addresses copy \<subseteq> {top..<top'}" "erase copy = erase b" by auto
  have "addresses copy \<inter> addresses b = {}"
  proof (rule ccontr)
    assume "addresses copy \<inter> addresses b \<noteq> {}"
    then obtain x where "x \<in> addresses copy" "x \<in> addresses b" by auto
    then have "top \<le> x" "x < top" using pb(1) cb(1) by auto
    then show False by simp
  qed
  moreover have "update env force isFromApi st
      = (st\<lparr>cache := Some \<lparr>etag = map_of headers ''etag'', body = b\<rparr>,
            emitted := emitted st @ [(copy, force, isFromApi)],
            lastFetch := Some (hrtime env),
            heapTop := top'\<rparr>,
         None)"
    using assms p c by (simp add: update_def fetch_def)
  ultimately show ?thesis using pb(2) cb(2) by auto
qed

theorem update_replaces_cache_and_emits_once_witness:
  "update
     \<lparr>getMany = Some \<lparr>uuid = ''u1'', apiEndpoint = Some ''https://api.example'',
                        apiTimeout = 1000\<rparr>,
      remote = (\<lambda>req. Reply 200 [(''etag'', Single ''v2'')] (JObj [(''apps'', JArr [])]) 10),
      hrtime = 77\<rparr>
     True False
     \<lparr>cache = Some \<lparr>etag = Some (Single ''v1''), body = VObj 0 []\<rparr>, emitted = [],
      lastFetch = None, heapTop = 1\<rparr>
   = (\<lparr>cache = Some \<lparr>etag = Some (Single ''v2''), body = VObj 1 [(''apps'', VArr 2 [])]\<rparr>,
       emitted = [(VObj 3 [(''apps'', VArr 4 [])], True, False)],
       lastFetch = Some 77, heapTop = 5\<rparr>,
      None)"
  using update_replaces_cache_and_emits_once
    [of "\<lparr>getMany = Some \<lparr>uuid = ''u1'', apiEndpoint = Some ''https://api.example'',
                        apiTimeout = 1000\<rparr>,
      remote = (\<lambda>req. Reply 200 [(''etag'', Single ''v2'')] (JObj [(''apps'', JArr [])]) 10),
      hrtime = 77\<rparr>"
      "\<lparr>uuid = ''u1'', apiEndpoint = Some ''https://api.example'', apiTimeout = 1000\<rparr>"
      "''https://api.example''" "[(''etag'', Single ''v2'')]" "JObj [(''apps'', JArr [])]" 10
      True False
      "\<lparr>cache = Some \<lparr>etag = Some (Single ''v1''), body = VObj 0 []\<rparr>, emitted = [],
      lastFetch = None, heapTop = 1\<rparr>"]
  by (simp add: update_def fetch_def)

text \<open>
  C1 does not hold of \<open>update\<close>. The cache holds the validation token \<open>v1\<close>, and the
  endpoint serves the same document under the same token, answering 304 to a request
  that carries the token as \<open>If-None-Match\<close>. The request \<open>update\<close> sends carries no
  header: \<open>params\<close> is built and not passed on. The endpoint answers 200, the cache is
  assigned anew and an event is emitted.
\<close>

theorem update_refetches_unchanged_document:
  "update
     \<lparr>getMany = Some \<lparr>uuid = ''u1'', apiEndpoint = Some ''https://api.example'',
                        apiTimeout = 1000\<rparr>,
      remote = targetStateEndpoint ''v1'' (JObj [(''apps'', JArr [])]),
      hrtime = 77\<rparr>
     False False
     \<lparr>cache = Some \<lparr>etag = Some (Single ''v1''), body = VObj 0 [(''apps'', VArr 1 [])]\<rparr>,
      emitted = [], lastFetch = None, heapTop = 2\<rparr>
   = (\<lparr>cache = Some \<lparr>etag = Some (Single ''v1''), body = VObj 2 [(''apps'', VArr 3 [])]\<rparr>,
       emitted = [(VObj 4 [(''apps'', VArr 5 [])], False, False)],
       lastFetch = Some 77, heapTop = 6\<rparr>,
      None)"
  by (simp add: update_def fetch_def targetStateEndpoint_def)

text \<open>The other half of C1 does hold: an answer of 304 leaves cache and events alone.\<close>

lemma update_not_modified:
  assumes "getMany env = Some cfg"
    and "apiEndpoint cfg = Some base"
    and "remote env
           \<lparr>req_endpoint = (base, ''/device/v2/'' @ uuid cfg @ ''/state''),
            req_options = \<lparr>opt_json = True, opt_headers = None\<rparr>\<rparr>
         = Reply 304 headers document elapsed"
    and "elapsed < apiTimeout cfg"
  shows "cache (fst (update env force isFromApi st)) = cache st
     \<and> emitted (fst (update env force isFromApi st)) = emitted st
     \<and> snd (update env force isFromApi st) = None"
  using assms by (simp add: update_def fetch_def split: prod.splits)

text \<open>Whatever the cache holds, the request goes out without headers.\<close>

lemma update_sends_no_headers:
  "update (env\<lparr>remote :=
             \<lambda>req. remote env (req\<lparr>req_options := \<lparr>opt_json = True, opt_headers = None\<rparr>\<rparr>)\<rparr>)
     force isFromApi st
   = update env force isFromApi st"
  by (simp add: update_def fetch_def split: option.splits)

subsection \<open>The poller\<close>

lemma pollCycle_failure:
  assumes "appUpdatePollInterval c = Some i"
    and "snd (update (world c) False False (targetState p)) \<noteq> None"
  shows "fst (pollCycle mj c False p) = min (real_of_int i) (15000 * 2 ^ targetStateFetchErrors p)"
    and "targetStateFetchErrors (snd (pollCycle mj c False p)) = targetStateFetchErrors p + 1"
  using assms by (auto simp: pollCycle_def Let_def split: prod.splits option.splits)

lemma pollCycle_success:
  assumes "appUpdatePollInterval c = Some i"
    and "snd (update (world c) False False (targetState p)) = None"
  shows "fst (pollCycle mj c False p) = random c * mj + real_of_int i"
    and "targetStateFetchErrors (snd (pollCycle mj c False p)) = 0"
  using assms by (auto simp: pollCycle_def Let_def split: prod.splits option.splits)

lemma poll_failures:
  assumes "\<forall>c\<in>set cs. (\<exists>i. appUpdatePollInterval c = Some i)
             \<and> (\<forall>st. snd (update (world c) False False st) \<noteq> None)"
  shows "length (fst (poll mj cs False p)) = length cs
     \<and> (\<forall>n<length cs. \<exists>i. appUpdatePollInterval (cs ! n) = Some i
            \<and> fst (poll mj cs False p) ! n
              = min (real_of_int i) (15000 * 2 ^ (targetStateFetchErrors p + n)))
     \<and> targetStateFetchErrors (snd (poll mj cs False p)) = targetStateFetchErrors p + length cs"
  using assms
proof (induction cs arbitrary: p)
  case Nil
  then show ?case by simp
next
  case (Cons c cs)
  obtain i where i: "appUpdatePollInterval c = Some i" using Cons.prems by auto
  have f: "snd (update (world c) False False (targetState p)) \<noteq> None"
    using Cons.prems by simp
  obtain d p' where cyc: "pollCycle mj c False p = (d, p')" by (cases "pollCycle mj c False p")
  have d: "d = min (real_of_int i) (15000 * 2 ^ targetStateFetchErrors p)"
    and p': "targetStateFetchErrors p' = targetStateFetchErrors p + 1"
    using pollCycle_failure [OF i f, of mj] cyc by simp_all
  obtain ds p'' where rest: "poll mj cs False p' = (ds, p'')" by (cases "poll mj cs False p'")
  have run: "poll mj (c # cs) False p = (d # ds, p'')"
    using cyc rest by simp
  have "\<forall>c\<in>set cs. (\<exists>i. appUpdatePollInterval c = Some i)
             \<and> (\<forall>st. snd (update (world c) False False st) \<noteq> None)"
    using Cons.prems by simp
  from Cons.IH [OF this, of p'] rest
  have ih: "length ds = length cs"
    "\<forall>n<length cs. \<exists>i. appUpdatePollInterval (cs ! n) = Some i
            \<and> ds ! n = min (real_of_int i) (15000 * 2 ^ (targetStateFetchErrors p' + n))"
    "targetStateFetchErrors p'' = targetStateFetchErrors p' + length cs"
    by simp_all
  have "\<forall>n<length (c # cs). \<exists>j. appUpdatePollInterval ((c # cs) ! n) = Some j
            \<and> (d # ds) ! n = min (real_of_int j) (15000 * 2 ^ (targetStateFetchErrors p + n))"
  proof (intro allI impI)
    fix n assume n: "n < length (c # cs)"
    show "\<exists>j. appUpdatePollInterval ((c # cs) ! n) = Some j
            \<and> (d # ds) ! n = min (real_of_int j) (15000 * 2 ^ (targetStateFetchErrors p + n))"
    proof (cases n)
      case 0
      then show ?thesis using i d by simp
    next
      case (Suc m)
      then have "m < length cs" using n by simp
      with ih(2) obtain j where "appUpdatePollInterval (cs ! m) = Some j"
        "ds ! m = min (real_of_int j) (15000 * 2 ^ (targetStateFetchErrors p' + m))" by blast
      then show ?thesis using Suc p' by simp
    qed
  qed
  then show ?case using run ih(1) ih(3) p' by simp
qed

text \<open>
  C4: a cycle whose fetch fails with the counter at \<open>n\<close> sleeps
  \<open>min(appUpdatePollInterval, 15000 * 2^n)\<close> and leaves the counter at \<open>n + 1\<close>; so
  from a counter of zero, the failures numbered 0, 1, 2, ... of a run of failing cycles
  sleep \<open>min(interval, 15000 * 2^n)\<close>, each with the interval configured at its cycle.
  A cycle whose fetch succeeds leaves the counter at zero and sleeps the interval plus
  \<open>Math.random() * maxApiJitterDelay\<close>, which lies between the interval and the interval
  plus \<open>maxApiJitterDelay\<close>, the latter excluded, for a random number in \<open>[0, 1)\<close>.
\<close>

theorem poll_backoff:
  "(appUpdatePollInterval c = Some i
      \<and> snd (update (world c) False False (targetState p)) \<noteq> None \<longrightarrow>
      fst (pollCycle maxApiJitterDelay c False p)
        = min (real_of_int i) (15000 * 2 ^ targetStateFetchErrors p)
      \<and> targetStateFetchErrors (snd (pollCycle maxApiJitterDelay c False p))
        = targetStateFetchErrors p + 1)
   \<and> (targetStateFetchErrors p = 0
      \<and> (\<forall>c\<in>set cs. (\<exists>i. appUpdatePollInterval c = Some i)
             \<and> (\<forall>st. snd (update (world c) False False st) \<noteq> None)) \<longrightarrow>
      length (fst (poll maxApiJitterDelay cs False p)) = length cs
      \<and> (\<forall>n<length cs. \<exists>i. appUpdatePollInterval (cs ! n) = Some i
             \<and> fst (poll maxApiJitterDelay cs False p) ! n
               = min (real_of_int i) (15000 * 2 ^ n))
      \<and> targetStateFetchErrors (snd (poll maxApiJitterDelay cs False p)) = length cs)
   \<and> (appUpdatePollInterval c = Some i
      \<and> snd (update (world c) False False (targetState p)) = None \<longrightarrow>
      fst (pollCycle maxApiJitterDelay c False p)
        = random c * maxApiJitterDelay + real_of_int i
      \<and> targetStateFetchErrors (snd (pollCycle maxApiJitterDelay c False p)) = 0
      \<and> (0 \<le> random c \<and> random c < 1 \<and> 0 < maxApiJitterDelay \<longrightarrow>
           real_of_int i \<le> fst (pollCycle maxApiJitterDelay c False p)
           \<and> fst (pollCycle maxApiJitterDelay c False p) < real_of_int i + maxApiJitterDelay))"
proof (intro conjI impI)
  assume a: "appUpdatePollInterval c = Some i
      \<and> snd (update (world c) False False (targetState p)) \<noteq> None"
  then show "fst (pollCycle maxApiJitterDelay c False p)
        = min (real_of_int i) (15000 * 2 ^ targetStateFetchErrors p)"
    and "targetStateFetchErrors (snd (pollCycle maxApiJitterDelay c False p))
        = targetStateFetchErrors p + 1"
    using pollCycle_failure [of c i p maxApiJitterDelay] by simp_all
next
  assume a: "targetStateFetchErrors p = 0
      \<and> (\<forall>c\<in>set cs. (\<exists>i. appUpdatePollInterval c = Some i)
             \<and> (\<forall>st. snd (update (world c) False False st) \<noteq> None))"
  then have all: "\<forall>c\<in>set cs. (\<exists>i. appUpdatePollInterval c = Some i)
             \<and> (\<forall>st. snd (update (world c) False False st) \<noteq> None)" by simp
  from poll_failures [OF all, of maxApiJitterDelay p] a
  show "length (fst (poll maxApiJitterDelay cs False p)) = length cs"
    and "\<forall>n<length cs. \<exists>i. appUpdatePollInterval (cs ! n) = Some i
             \<and> fst (poll maxApiJitterDelay cs False p) ! n
               = min (real_of_int i) (15000 * 2 ^ n)"
    and "targetStateFetchErrors (snd (poll maxApiJitterDelay cs False p)) = length cs"
    by simp_all
next
  assume a: "appUpdatePollInterval c = Some i
      \<and> snd (update (world c) False False (targetState p)) = None"
  then show d: "fst (pollCycle maxApiJitterDelay c False p)
        = random c * maxApiJitterDelay + real_of_int i"
    and "targetStateFetchErrors (snd (pollCycle maxApiJitterDelay c False p)) = 0"
    using pollCycle_success [of c i p maxApiJitterDelay] by simp_all
  assume r: "0 \<le> random c \<and> random c < 1 \<and> 0 < maxApiJitterDelay"
  then have "0 \<le> random c * maxApiJitterDelay" by simp
  then show "real_of_int i \<le> fst (pollCycle maxApiJitterDelay c False p)"
    using d by simp
  have "random c * maxApiJitterDelay < 1 * maxApiJitterDelay"
    using r by (intro mult_strict_right_mono) simp_all
  then show "fst (pollCycle maxApiJitterDelay c False p) < real_of_int i + maxApiJitterDelay"
    using d by simp
qed

theorem poll_backoff_witness:
  "fst (poll 10000
          [\<lparr>appUpdatePollInterval = Some 100000, random = 1 / 2,
        world = \<lparr>getMany = None, remote = (\<lambda>req. Unreachable), hrtime = 1\<rparr>\<rparr>,
           \<lparr>appUpdatePollInterval = Some 20000, random = 1 / 4,
        world = \<lparr>getMany = None, remote = (\<lambda>req. Unreachable), hrtime = 2\<rparr>\<rparr>]
          False
          \<lparr>targetState = \<lparr>cache = None, emitted = [], lastFetch = None, heapTop = 0\<rparr>,
      targetStateFetchErrors = 0\<rparr>)
   = [15000, 20000]
   \<and> targetStateFetchErrors
       (snd (poll 10000
          [\<lparr>appUpdatePollInterval = Some 100000, random = 1 / 2,
        world = \<lparr>getMany = None, remote = (\<lambda>req. Unreachable), hrtime = 1\<rparr>\<rparr>,
           \<lparr>appUpdatePollInterval = Some 20000, random = 1 / 4,
        world = \<lparr>getMany = None, remote = (\<lambda>req. Unreachable), hrtime = 2\<rparr>\<rparr>]
          False
          \<lparr>targetState = \<lparr>cache = None, emitted = [], lastFetch = None, heapTop = 0\<rparr>,
      targetStateFetchErrors = 0\<rparr>))
     = 2
   \<and> pollCycle 10000
       \<lparr>appUpdatePollInterval = Some 100000, random = 1 / 2,
        world = \<lparr>getMany = None, remote = (\<lambda>req. Unreachable), hrtime = 1\<rparr>\<rparr>
       False
       \<lparr>targetState = \<lparr>cache = None, emitted = [], lastFetch = Some 2, heapTop = 0\<rparr>,
      targetStateFetchErrors = 2\<rparr>
     = (60000,
        \<lparr>targetState = \<lparr>cache = None, emitted = [], lastFetch = Some 1, heapTop = 0\<rparr>,
         targetStateFetchErrors = 3\<rparr>)
   \<and> pollCycle 10000
       \<lparr>appUpdatePollInterval = Some 60000, random = 1 / 2,
        world = \<lparr>getMany = Some \<lparr>uuid = ''u1'', apiEndpoint = Some ''https://api.example'',
                                   apiTimeout = 1000\<rparr>,
                 remote = (\<lambda>req. Reply 304 [] JNull 10), hrtime = 3\<rparr>\<rparr>
       False
       \<lparr>targetState = \<lparr>cache = None, emitted = [], lastFetch = Some 2, heapTop = 0\<rparr>,
      targetStateFetchErrors = 2\<rparr>
     = (65000,
        \<lparr>targetState = \<lparr>cache = None, emitted = [], lastFetch = Some 3, heapTop = 0\<rparr>,
         targetStateFetchErrors = 0\<rparr>)"
  using poll_backoff
    [of "\<lparr>appUpdatePollInterval = Some 100000, random = 1 / 2,
        world = \<lparr>getMany = None, remote = (\<lambda>req. Unreachable), hrtime = 1\<rparr>\<rparr>"
        100000
        "\<lparr>targetState = \<lparr>cache = None, emitted = [], lastFetch = Some 2, heapTop = 0\<rparr>,
      targetStateFetchErrors = 2\<rparr>"
        10000
        "[\<lparr>appUpdatePollInterval = Some 100000, random = 1 / 2,
        world = \<lparr>getMany = None, remote = (\<lambda>req. Unreachable), hrtime = 1\<rparr>\<rparr>,
          \<lparr>appUpdatePollInterval = Some 20000, random = 1 / 4,
        world = \<lparr>getMany = None, remote = (\<lambda>req. Unreachable), hrtime = 2\<rparr>\<rparr>]"]
    poll_backoff
    [of "\<lparr>appUpdatePollInterval = Some 60000, random = 1 / 2,
        world = \<lparr>getMany = Some \<lparr>uuid = ''u1'', apiEndpoint = Some ''https://api.example'',
                                   apiTimeout = 1000\<rparr>,
                 remote = (\<lambda>req. Reply 304 [] JNull 10), hrtime = 3\<rparr>\<rparr>"
        60000
        "\<lparr>targetState = \<lparr>cache = None, emitted = [], lastFetch = None, heapTop = 0\<rparr>,
      targetStateFetchErrors = 0\<rparr>"
        10000
        "[\<lparr>appUpdatePollInterval = Some 100000, random = 1 / 2,
        world = \<lparr>getMany = None, remote = (\<lambda>req. Unreachable), hrtime = 1\<rparr>\<rparr>,
          \<lparr>appUpdatePollInterval = Some 20000, random = 1 / 4,
        world = \<lparr>getMany = None, remote = (\<lambda>req. Unreachable), hrtime = 2\<rparr>\<rparr>]"]
    poll_backoff
    [of "\<lparr>appUpdatePollInterval = Some 60000, random = 1 / 2,
        world = \<lparr>getMany = Some \<lparr>uuid = ''u1'', apiEndpoint = Some ''https://api.example'',
                                   apiTimeout = 1000\<rparr>,
                 remote = (\<lambda>req. Reply 304 [] JNull 10), hrtime = 3\<rparr>\<rparr>"
        60000
        "\<lparr>targetState = \<lparr>cache = None, emitted = [], lastFetch = Some 2, heapTop = 0\<rparr>,
      targetStateFetchErrors = 2\<rparr>"
        10000
        "[]"]
  by (simp add: pollCycle_def update_def fetch_def)

end
